theory Spec2Isabelle
  imports Complex_Main
begin

section \<open>JavaScript values\<close>

text \<open>
  Strings are lists of code units below 256 (HOL's \<open>char\<close>); a JSON document is a
  \<open>json\<close> value, and a JavaScript value that may be \<open>undefined\<close> is a \<open>json option\<close>
  with \<open>None\<close> for \<open>undefined\<close>. A thrown value is an \<open>error\<close>; a call that may
  throw returns \<open>error + 'a\<close> with \<open>Inl\<close> for the throw.
\<close>

datatype json =
    JNull
  | JBool bool
  | JNum real
  | JStr string
  | JArr "json list"
  | JObj "(string \<times> json) list"

type_synonym jsval = "json option"

datatype error =
    Error string
  | TypeError string
  | JSONParseError string string

fun error_message :: "error \<Rightarrow> string" where
  "error_message (Error m) = m"
| "error_message (TypeError m) = m"
| "error_message (JSONParseError m t) = m"

text \<open>Truthiness, as \<open>if (v)\<close>, \<open>!v\<close> and \<open>a || b\<close> test it.\<close>

fun truthy :: "jsval \<Rightarrow> bool" where
  "truthy None = False"
| "truthy (Some JNull) = False"
| "truthy (Some (JBool b)) = b"
| "truthy (Some (JNum x)) = (x \<noteq> 0)"
| "truthy (Some (JStr s)) = (s \<noteq> [])"
| "truthy (Some (JArr xs)) = True"
| "truthy (Some (JObj kvs)) = True"

fun truthy_str :: "string option \<Rightarrow> bool" where
  "truthy_str None = False"
| "truthy_str (Some s) = (s \<noteq> [])"

text \<open>
  Property reads. \<open>get_prop v k\<close> is \<open>v.k\<close> on a value that is neither \<open>null\<close> nor
  \<open>undefined\<close>, for the keys this program reads (none of them is a property of a
  built-in prototype): an object gives the property, with the last duplicate key of the document
  already resolved by the parser, so the first binding of the list is the object's; any
  other value gives \<open>undefined\<close>. \<open>index0 v\<close> is \<open>v[0]\<close>. \<open>opt_prop\<close> and
  \<open>opt_index0\<close> are \<open>v?.k\<close> and \<open>v?.[0]\<close>.
\<close>

fun get_prop :: "json \<Rightarrow> string \<Rightarrow> jsval" where
  "get_prop (JObj kvs) k = map_of kvs k"
| "get_prop v k = None"

fun index0 :: "json \<Rightarrow> jsval" where
  "index0 (JArr xs) = (case xs of [] \<Rightarrow> None | x # _ \<Rightarrow> Some x)"
| "index0 (JStr s) = (case s of [] \<Rightarrow> None | c # _ \<Rightarrow> Some (JStr [c]))"
| "index0 (JObj kvs) = map_of kvs ''0''"
| "index0 v = None"

fun opt_prop :: "jsval \<Rightarrow> string \<Rightarrow> jsval" where
  "opt_prop None k = None"
| "opt_prop (Some JNull) k = None"
| "opt_prop (Some v) k = get_prop v k"

fun opt_index0 :: "jsval \<Rightarrow> jsval" where
  "opt_index0 None = None"
| "opt_index0 (Some JNull) = None"
| "opt_index0 (Some v) = index0 v"

subsection \<open>Strings and numbers\<close>

definition isWhiteSpace :: "char \<Rightarrow> bool" where
  "isWhiteSpace c =
     (c \<in> set [CHR 0x09, CHR 0x0A, CHR 0x0B, CHR 0x0C, CHR 0x0D, CHR 0x20, CHR 0xA0])"

definition isLineTerminator :: "char \<Rightarrow> bool" where
  "isLineTerminator c = (c = CHR 0x0A \<or> c = CHR 0x0D)"

definition trim :: "string \<Rightarrow> string" where
  "trim s = rev (dropWhile isWhiteSpace (rev (dropWhile isWhiteSpace s)))"

definition isDigit :: "char \<Rightarrow> bool" where
  "isDigit c = (c \<in> set ''0123456789'')"

definition digit_value :: "char \<Rightarrow> nat" where
  "digit_value c = of_char c - 48"

definition digits_value :: "string \<Rightarrow> nat" where
  "digits_value ds = foldl (\<lambda>acc c. 10 * acc + digit_value c) 0 ds"

text \<open>
  \<open>Number.parseInt(s, 10)\<close>: leading white space is skipped, a sign is read, then the
  longest run of decimal digits; \<open>None\<close> is \<open>NaN\<close>. The value is exact here, where
  JavaScript rounds to a double from \<open>2 ^ 53\<close> on.
\<close>

definition parseInt :: "string \<Rightarrow> int option" where
  "parseInt s =
     (let t = dropWhile isWhiteSpace s;
          neg = (case t of [] \<Rightarrow> False | c # _ \<Rightarrow> c = CHR ''-'');
          u = (case t of [] \<Rightarrow> [] | c # r \<Rightarrow> if c = CHR ''-'' \<or> c = CHR ''+'' then r else t);
          ds = takeWhile isDigit u
      in if ds = [] then None
         else Some (if neg then - int (digits_value ds) else int (digits_value ds)))"

function show_nat :: "nat \<Rightarrow> string" where
  "show_nat n =
     (if n < 10 then [''0123456789'' ! n]
      else show_nat (n div 10) @ [''0123456789'' ! (n mod 10)])"
  by pat_completeness auto
termination
  by (relation "measure id") auto

declare show_nat.simps [simp del]

text \<open>A number in a template literal: \<open>NaN\<close>, or the decimal numeral with its sign.\<close>

fun show_number :: "int option \<Rightarrow> string" where
  "show_number None = ''NaN''"
| "show_number (Some i) = (if i < 0 then CHR ''-'' # show_nat (nat (- i)) else show_nat (nat i))"

fun join :: "string \<Rightarrow> string list \<Rightarrow> string" where
  "join sep [] = []"
| "join sep [x] = x"
| "join sep (x # y # ys) = x @ sep @ join sep (y # ys)"

text \<open>\<open>String.prototype.toLowerCase\<close> on code units below 256.\<close>

definition toLowerCase_char :: "char \<Rightarrow> char" where
  "toLowerCase_char c =
     (let n = (of_char c :: nat)
      in if (65 \<le> n \<and> n \<le> 90) \<or> (192 \<le> n \<and> n \<le> 222 \<and> n \<noteq> 215) then char_of (n + 32) else c)"

definition toLowerCase :: "string \<Rightarrow> string" where
  "toLowerCase s = map toLowerCase_char s"

section \<open>The host: runtime, environment and libraries\<close>

text \<open>
  \<open>runtime.getSetting(key)\<close> and \<open>process.env[key]\<close> are partial maps; \<open>None\<close> is
  \<open>null\<close> or \<open>undefined\<close>.
\<close>

record IAgentRuntime =
  settings :: "string \<rightharpoonup> string"
  character_system :: "string option"

type_synonym process_env = "string \<rightharpoonup> string"

datatype ModelTypeName =
    TEXT_SMALL
  | TEXT_LARGE
  | TEXT_EMBEDDING
  | TEXT_TOKENIZER_ENCODE
  | TEXT_TOKENIZER_DECODE
  | IMAGE
  | IMAGE_DESCRIPTION
  | TRANSCRIPTION
  | TEXT_TO_SPEECH
  | OBJECT_SMALL
  | OBJECT_LARGE

record LanguageModelUsage =
  promptTokens :: jsval
  completionTokens :: jsval
  totalTokens :: jsval

record model_used =
  ev_provider :: string
  ev_type :: ModelTypeName
  ev_prompt :: string
  ev_tokens_prompt :: jsval
  ev_tokens_completion :: jsval
  ev_tokens_total :: jsval

datatype form_value = FormString string | FormBlob "nat list" string

datatype request_body = JsonBody "(string \<times> json) list" | FormBody "(string \<times> form_value) list"

record request =
  url :: string
  http_method :: string
  headers :: "(string \<times> string) list"
  req_body :: request_body

text \<open>
  A response of \<open>fetch\<close>: \<open>text_result\<close> is what \<open>response.text()\<close> (or that of a
  clone) resolves to, \<open>json_result\<close> what \<open>response.json()\<close> resolves to, \<open>body\<close> the
  stream \<open>response.body\<close> (\<open>None\<close> is \<open>null\<close>).
\<close>

record response =
  ok :: bool
  status :: nat
  statusText :: string
  text_result :: "error + string"
  json_result :: "error + json"
  body :: "string option"

record client_config =
  cc_apiKey :: "string option"
  cc_baseURL :: string

record generateText_args =
  gt_client :: client_config
  gt_model :: string
  gt_prompt :: string
  gt_system :: "string option"
  gt_temperature :: real
  gt_maxTokens :: real
  gt_frequencyPenalty :: real
  gt_presencePenalty :: real
  gt_stopSequences :: "string list"
  gt_telemetry :: bool

record generateText_result =
  gt_text :: string
  gt_usage :: "LanguageModelUsage option"

record generateObject_args =
  go_client :: client_config
  go_model :: string
  go_prompt :: string
  go_temperature :: real

record generateObject_result =
  go_object :: json
  go_usage :: "LanguageModelUsage option"

record Tiktoken =
  encode :: "string \<Rightarrow> error + nat list"
  decode :: "nat list \<Rightarrow> error + string"

text \<open>
  What the program imports and does not define: the constant \<open>VECTOR_DIMS\<close> of the
  host's core package (its values), \<open>fetch\<close>, the SDK's \<open>generateText\<close> and
  \<open>generateObject\<close>, the tokenizer library's \<open>encodingForModel\<close>, and \<open>JSON.parse\<close>.
  Each is a parameter; a function that may throw returns a sum. The values of
  \<open>VECTOR_DIMS\<close> are vector lengths, so they are taken to be lengths an array can have.
  The SDK sends its HTTP requests itself, with a retry policy of its own that the program does
  not set: \<open>generateText_http\<close> and \<open>generateObject_http\<close> give the requests it sends
  during one call, in order.
\<close>

record host =
  VECTOR_DIMS :: "nat list"
  fetch :: "request \<Rightarrow> error + response"
  generateText :: "generateText_args \<Rightarrow> error + generateText_result"
  generateObject :: "generateObject_args \<Rightarrow> error + generateObject_result"
  generateText_http :: "generateText_args \<Rightarrow> request list"
  generateObject_http :: "generateObject_args \<Rightarrow> request list"
  encodingForModel :: "string \<Rightarrow> error + Tiktoken"
  JSON_parse :: "string \<Rightarrow> error + json"

text \<open>
  What an invocation does to the outside, in order: an HTTP request (sent by the handler
  through \<open>fetch\<close>, or by the SDK during a call), a call of the SDK, an event given to
  \<open>runtime.emitEvent\<close>. Log lines are left out.
\<close>

datatype effect =
    Fetch request
  | GenerateText generateText_args
  | GenerateObject generateObject_args
  | EmitEvent model_used

section \<open>Settings\<close>

definition getSetting :: "IAgentRuntime \<Rightarrow> process_env \<Rightarrow> string \<Rightarrow> string option \<Rightarrow> string option" where
  "getSetting runtime env key defaultValue =
     (case settings runtime key of
        Some v \<Rightarrow> Some v
      | None \<Rightarrow> (case env key of Some v \<Rightarrow> Some v | None \<Rightarrow> defaultValue))"

text \<open>
  \<open>getSetting(runtime, key, d) as string\<close> with a default: the \<open>None\<close> branch
  cannot occur, since the default is a string.
\<close>

definition getSettingOr :: "IAgentRuntime \<Rightarrow> process_env \<Rightarrow> string \<Rightarrow> string \<Rightarrow> string" where
  "getSettingOr runtime env key d =
     (case getSetting runtime env key (Some d) of Some v \<Rightarrow> v | None \<Rightarrow> d)"

definition getBaseURL :: "IAgentRuntime \<Rightarrow> process_env \<Rightarrow> string" where
  "getBaseURL runtime env = getSettingOr runtime env ''ELIZAOS_BASE_URL'' ''http://localhost:3001/api/v1''"

definition getEmbeddingBaseURL :: "IAgentRuntime \<Rightarrow> process_env \<Rightarrow> string" where
  "getEmbeddingBaseURL runtime env =
     (let embeddingURL = getSetting runtime env ''ELIZAOS_EMBEDDING_URL'' None
      in if truthy_str embeddingURL then the embeddingURL else getBaseURL runtime env)"

definition getApiKey :: "IAgentRuntime \<Rightarrow> process_env \<Rightarrow> string option" where
  "getApiKey runtime env = getSetting runtime env ''ELIZAOS_API_KEY'' None"

definition getEmbeddingApiKey :: "IAgentRuntime \<Rightarrow> process_env \<Rightarrow> string option" where
  "getEmbeddingApiKey runtime env =
     (let embeddingApiKey = getSetting runtime env ''ELIZAOS_EMBEDDING_API_KEY'' None
      in if truthy_str embeddingApiKey then embeddingApiKey else getApiKey runtime env)"

definition getSmallModel :: "IAgentRuntime \<Rightarrow> process_env \<Rightarrow> string" where
  "getSmallModel runtime env =
     (case getSetting runtime env ''ELIZAOS_SMALL_MODEL'' None of
        Some v \<Rightarrow> v
      | None \<Rightarrow> getSettingOr runtime env ''SMALL_MODEL'' ''gpt-4o'')"

definition getLargeModel :: "IAgentRuntime \<Rightarrow> process_env \<Rightarrow> string" where
  "getLargeModel runtime env =
     (case getSetting runtime env ''ELIZAOS_LARGE_MODEL'' None of
        Some v \<Rightarrow> v
      | None \<Rightarrow> getSettingOr runtime env ''LARGE_MODEL'' ''gpt-5-mini'')"

definition getImageDescriptionModel :: "IAgentRuntime \<Rightarrow> process_env \<Rightarrow> string" where
  "getImageDescriptionModel runtime env =
     (case getSetting runtime env ''ELIZAOS_IMAGE_DESCRIPTION_MODEL'' (Some ''gpt-4o'') of
        Some v \<Rightarrow> v
      | None \<Rightarrow> ''gpt-4o'')"

definition getExperimentalTelemetry :: "IAgentRuntime \<Rightarrow> process_env \<Rightarrow> bool" where
  "getExperimentalTelemetry runtime env =
     (let setting = getSettingOr runtime env ''ELIZAOS_EXPERIMENTAL_TELEMETRY'' ''false'';
          normalizedSetting = toLowerCase setting
      in normalizedSetting = ''true'')"

definition createOpenAIClient :: "IAgentRuntime \<Rightarrow> process_env \<Rightarrow> client_config" where
  "createOpenAIClient runtime env =
     \<lparr>cc_apiKey = getApiKey runtime env, cc_baseURL = getBaseURL runtime env\<rparr>"

section \<open>Tokenizer\<close>

text \<open>
  The model name of \<open>tokenizeText\<close> and \<open>detokenizeText\<close>: the same expression in
  both, over \<open>process.env\<close> only.
\<close>

definition tokenizerModelName :: "process_env \<Rightarrow> ModelTypeName \<Rightarrow> string" where
  "tokenizerModelName env model =
     (if model = TEXT_SMALL
      then (case env ''ELIZAOS_SMALL_MODEL'' of
              Some v \<Rightarrow> v
            | None \<Rightarrow> (case env ''SMALL_MODEL'' of Some v \<Rightarrow> v | None \<Rightarrow> ''gpt-4o''))
      else (case env ''ELIZAOS_LARGE_MODEL'' of
              Some v \<Rightarrow> v
            | None \<Rightarrow> (case env ''LARGE_MODEL'' of Some v \<Rightarrow> v | None \<Rightarrow> ''gpt-5-mini'')))"

definition tokenizeText :: "host \<Rightarrow> process_env \<Rightarrow> ModelTypeName \<Rightarrow> string \<Rightarrow> error + nat list" where
  "tokenizeText h env model prompt =
     (let modelName = tokenizerModelName env model
      in case encodingForModel h modelName of
           Inl e \<Rightarrow> Inl e
         | Inr encoding \<Rightarrow> encode encoding prompt)"

definition detokenizeText :: "host \<Rightarrow> process_env \<Rightarrow> ModelTypeName \<Rightarrow> nat list \<Rightarrow> error + string" where
  "detokenizeText h env model tokens =
     (let modelName = tokenizerModelName env model
      in case encodingForModel h modelName of
           Inl e \<Rightarrow> Inl e
         | Inr encoding \<Rightarrow> decode encoding tokens)"

text \<open>The two handlers: the runtime is not used, a missing model type is \<open>TEXT_LARGE\<close>.\<close>

definition models_TEXT_TOKENIZER_ENCODE ::
  "host \<Rightarrow> IAgentRuntime \<Rightarrow> process_env \<Rightarrow> string \<Rightarrow> ModelTypeName option \<Rightarrow> error + nat list" where
  "models_TEXT_TOKENIZER_ENCODE h runtime env prompt modelType =
     tokenizeText h env (case modelType of None \<Rightarrow> TEXT_LARGE | Some m \<Rightarrow> m) prompt"

definition models_TEXT_TOKENIZER_DECODE ::
  "host \<Rightarrow> IAgentRuntime \<Rightarrow> process_env \<Rightarrow> nat list \<Rightarrow> ModelTypeName option \<Rightarrow> error + string" where
  "models_TEXT_TOKENIZER_DECODE h runtime env tokens modelType =
     detokenizeText h env (case modelType of None \<Rightarrow> TEXT_LARGE | Some m \<Rightarrow> m) tokens"

section \<open>Usage events\<close>

text \<open>
  \<open>emitModelUsageEvent\<close> hands one \<open>MODEL_USED\<close> event to \<open>runtime.emitEvent\<close>, which
  is taken to return.
\<close>

definition emitModelUsageEvent :: "ModelTypeName \<Rightarrow> string \<Rightarrow> LanguageModelUsage \<Rightarrow> effect" where
  "emitModelUsageEvent type prompt usage =
     EmitEvent \<lparr>ev_provider = ''elizaos'', ev_type = type, ev_prompt = prompt,
                ev_tokens_prompt = promptTokens usage,
                ev_tokens_completion = completionTokens usage,
                ev_tokens_total = totalTokens usage\<rparr>"

section \<open>Text to speech\<close>

text \<open>A string or \<open>undefined\<close> inside a template literal.\<close>

fun show_string :: "string option \<Rightarrow> string" where
  "show_string None = ''undefined''"
| "show_string (Some s) = s"

definition fetchTextToSpeech ::
  "host \<Rightarrow> IAgentRuntime \<Rightarrow> process_env \<Rightarrow> string \<Rightarrow> effect list \<times> (error + string option)" where
  "fetchTextToSpeech h runtime env text =
     (let apiKey = getApiKey runtime env;
          model = getSettingOr runtime env ''ELIZAOS_TTS_MODEL'' ''gpt-4o-mini-tts'';
          voice = getSettingOr runtime env ''ELIZAOS_TTS_VOICE'' ''nova'';
          instructions = getSettingOr runtime env ''ELIZAOS_TTS_INSTRUCTIONS'' [];
          baseURL = getBaseURL runtime env;
          req = \<lparr>url = baseURL @ ''/audio/speech'', http_method = ''POST'',
                 headers = [(''Authorization'', ''Bearer '' @ show_string apiKey),
                            (''Content-Type'', ''application/json'')],
                 req_body = JsonBody
                   ([(''model'', JStr model), (''voice'', JStr voice), (''input'', JStr text)]
                    @ (if instructions \<noteq> [] then [(''instructions'', JStr instructions)] else []))\<rparr>
      in ([Fetch req],
          (case fetch h req of
             Inl err \<Rightarrow>
               Inl (Error (''Failed to fetch speech from ElizaOS TTS: '' @ error_message err))
           | Inr res \<Rightarrow>
               if \<not> ok res then
                 (case text_result res of
                    Inl err \<Rightarrow>
                      Inl (Error (''Failed to fetch speech from ElizaOS TTS: '' @ error_message err))
                  | Inr err \<Rightarrow>
                      Inl (Error (''Failed to fetch speech from ElizaOS TTS: ''
                                  @ ''ElizaOS TTS error '' @ show_nat (status res) @ '': '' @ err)))
               else Inr (body res))))"

definition models_TEXT_TO_SPEECH ::
  "host \<Rightarrow> IAgentRuntime \<Rightarrow> process_env \<Rightarrow> string \<Rightarrow> effect list \<times> (error + string option)" where
  "models_TEXT_TO_SPEECH h runtime env text =
     (case fetchTextToSpeech h runtime env text of
        (tr, Inl error) \<Rightarrow> (tr, Inl error)
      | (tr, Inr speechStream) \<Rightarrow> (tr, Inr speechStream))"

section \<open>Embeddings\<close>

datatype TextEmbeddingParams = ParamsNull | ParamsString string | ParamsObject "string option"

text \<open>
  \<open>Array(d).fill(0)\<close> with element 0 then set to \<open>x\<close>; on an empty array the
  assignment appends.
\<close>

definition sentinelVector :: "nat \<Rightarrow> real \<Rightarrow> json" where
  "sentinelVector d x =
     JArr (if d = 0 then [JNum x] else (replicate d (JNum 0))[0 := JNum x])"

definition embeddingDimensionSetting :: "IAgentRuntime \<Rightarrow> process_env \<Rightarrow> int option" where
  "embeddingDimensionSetting runtime env =
     parseInt (let s = getSetting runtime env ''ELIZAOS_EMBEDDING_DIMENSIONS'' (Some ''1536'')
               in if truthy_str s then the s else ''1536'')"

text \<open>\<open>Object.values(VECTOR_DIMS).includes(embeddingDimension)\<close>\<close>

fun validDimension :: "host \<Rightarrow> int option \<Rightarrow> bool" where
  "validDimension h None = False"
| "validDimension h (Some i) = (0 \<le> i \<and> nat i \<in> set (VECTOR_DIMS h))"

definition embeddingRequest :: "string \<Rightarrow> string option \<Rightarrow> string \<Rightarrow> string \<Rightarrow> request" where
  "embeddingRequest embeddingBaseURL apiKey embeddingModelName text =
     \<lparr>url = embeddingBaseURL @ ''/embeddings'', http_method = ''POST'',
      headers = [(''Authorization'', ''Bearer '' @ show_string apiKey),
                 (''Content-Type'', ''application/json'')],
      req_body = JsonBody [(''model'', JStr embeddingModelName), (''input'', JStr text)]\<rparr>"

text \<open>The handler from the point where \<open>text\<close> is known.\<close>

definition embedText ::
  "host \<Rightarrow> IAgentRuntime \<Rightarrow> process_env \<Rightarrow> string \<Rightarrow> nat \<Rightarrow> string \<Rightarrow> effect list \<times> (error + json)" where
  "embedText h runtime env embeddingModelName embeddingDimension text =
     (if trim text = [] then ([], Inr (sentinelVector embeddingDimension (3 / 10)))
      else
        let embeddingBaseURL = getEmbeddingBaseURL runtime env;
            apiKey = getEmbeddingApiKey runtime env
        in if \<not> truthy_str apiKey then ([], Inl (Error ''ElizaOS API key not configured''))
           else
             let req = embeddingRequest embeddingBaseURL apiKey embeddingModelName text
             in (case fetch h req of
                   Inl error \<Rightarrow> ([Fetch req], Inr (sentinelVector embeddingDimension (6 / 10)))
                 | Inr response \<Rightarrow>
                     (case text_result response of
                        Inl error \<Rightarrow> ([Fetch req], Inr (sentinelVector embeddingDimension (6 / 10)))
                      | Inr rawResponseBody \<Rightarrow>
                          if \<not> ok response
                          then ([Fetch req], Inr (sentinelVector embeddingDimension (4 / 10)))
                          else
                            (case json_result response of
                               Inl error \<Rightarrow>
                                 ([Fetch req], Inr (sentinelVector embeddingDimension (6 / 10)))
                             | Inr data \<Rightarrow>
                                 let embedding =
                                   opt_prop (opt_index0 (opt_prop (Some data) ''data'')) ''embedding''
                                 in if \<not> truthy embedding
                                    then ([Fetch req], Inr (sentinelVector embeddingDimension (5 / 10)))
                                    else
                                      let usage = get_prop data ''usage''
                                      in ([Fetch req]
                                          @ (if truthy usage
                                             then [emitModelUsageEvent TEXT_EMBEDDING text
                                                     \<lparr>promptTokens = get_prop (the usage) ''prompt_tokens'',
                                                      completionTokens = Some (JNum 0),
                                                      totalTokens = get_prop (the usage) ''total_tokens''\<rparr>]
                                             else []),
                                          Inr (the embedding))))))"

definition models_TEXT_EMBEDDING ::
  "host \<Rightarrow> IAgentRuntime \<Rightarrow> process_env \<Rightarrow> TextEmbeddingParams \<Rightarrow> effect list \<times> (error + json)" where
  "models_TEXT_EMBEDDING h runtime env params =
     (let embeddingModelName =
            getSettingOr runtime env ''ELIZAOS_EMBEDDING_MODEL'' ''text-embedding-3-small'';
          embeddingDimension = embeddingDimensionSetting runtime env
      in if \<not> validDimension h embeddingDimension
         then ([], Inl (Error (''Invalid embedding dimension: '' @ show_number embeddingDimension
                               @ ''. Must be one of: ''
                               @ join '', '' (map show_nat (VECTOR_DIMS h)))))
         else
           let d = nat (the embeddingDimension)
           in (case params of
                 ParamsNull \<Rightarrow> ([], Inr (sentinelVector d (1 / 10)))
               | ParamsString s \<Rightarrow> embedText h runtime env embeddingModelName d s
               | ParamsObject t \<Rightarrow>
                   if truthy_str t then embedText h runtime env embeddingModelName d (the t)
                   else ([], Inr (sentinelVector d (2 / 10)))))"

section \<open>Text generation\<close>

record GenerateTextParams =
  p_prompt :: string
  p_stopSequences :: "string list option"
  p_maxTokens :: "real option"
  p_temperature :: "real option"
  p_frequencyPenalty :: "real option"
  p_presencePenalty :: "real option"

text \<open>A destructuring default: the default stands in for \<open>undefined\<close>.\<close>

fun default_to :: "'a \<Rightarrow> 'a option \<Rightarrow> 'a" where
  "default_to d None = d"
| "default_to d (Some v) = v"

definition models_TEXT_SMALL ::
  "host \<Rightarrow> IAgentRuntime \<Rightarrow> process_env \<Rightarrow> GenerateTextParams \<Rightarrow> effect list \<times> (error + string)" where
  "models_TEXT_SMALL h runtime env params =
     (let openai = createOpenAIClient runtime env;
          modelName = getSmallModel runtime env;
          experimentalTelemetry = getExperimentalTelemetry runtime env;
          args = \<lparr>gt_client = openai, gt_model = modelName, gt_prompt = p_prompt params,
                  gt_system = character_system runtime,
                  gt_temperature = default_to (7 / 10) (p_temperature params),
                  gt_maxTokens = default_to 8192 (p_maxTokens params),
                  gt_frequencyPenalty = default_to (7 / 10) (p_frequencyPenalty params),
                  gt_presencePenalty = default_to (7 / 10) (p_presencePenalty params),
                  gt_stopSequences = default_to [] (p_stopSequences params),
                  gt_telemetry = experimentalTelemetry\<rparr>
      in (case generateText h args of
            Inl e \<Rightarrow> (GenerateText args # map Fetch (generateText_http h args), Inl e)
          | Inr r \<Rightarrow>
              (GenerateText args # map Fetch (generateText_http h args)
               @ (case gt_usage r of
                    None \<Rightarrow> []
                  | Some usage \<Rightarrow> [emitModelUsageEvent TEXT_SMALL (p_prompt params) usage]),
               Inr (gt_text r))))"

definition models_TEXT_LARGE ::
  "host \<Rightarrow> IAgentRuntime \<Rightarrow> process_env \<Rightarrow> GenerateTextParams \<Rightarrow> effect list \<times> (error + string)" where
  "models_TEXT_LARGE h runtime env params =
     (let openai = createOpenAIClient runtime env;
          modelName = getLargeModel runtime env;
          experimentalTelemetry = getExperimentalTelemetry runtime env;
          args = \<lparr>gt_client = openai, gt_model = modelName, gt_prompt = p_prompt params,
                  gt_system = character_system runtime,
                  gt_temperature = default_to (7 / 10) (p_temperature params),
                  gt_maxTokens = default_to 8192 (p_maxTokens params),
                  gt_frequencyPenalty = default_to (7 / 10) (p_frequencyPenalty params),
                  gt_presencePenalty = default_to (7 / 10) (p_presencePenalty params),
                  gt_stopSequences = default_to [] (p_stopSequences params),
                  gt_telemetry = experimentalTelemetry\<rparr>
      in (case generateText h args of
            Inl e \<Rightarrow> (GenerateText args # map Fetch (generateText_http h args), Inl e)
          | Inr r \<Rightarrow>
              (GenerateText args # map Fetch (generateText_http h args)
               @ (case gt_usage r of
                    None \<Rightarrow> []
                  | Some usage \<Rightarrow> [emitModelUsageEvent TEXT_LARGE (p_prompt params) usage]),
               Inr (gt_text r))))"

section \<open>Object generation\<close>

record ObjectGenerationParams =
  op_prompt :: string
  op_temperature :: "real option"

text \<open>
  \<open>text.replace(/```json\n|\n```|```/g, '')\<close>: at each position the first alternative
  that matches is removed.
\<close>

definition fence :: string where
  "fence = [CHR 0x60, CHR 0x60, CHR 0x60]"

function strip_fences :: "string \<Rightarrow> string" where
  "strip_fences [] = []"
| "strip_fences (c # cs) =
     (if take 8 (c # cs) = fence @ ''json'' @ [CHR 0x0A] then strip_fences (drop 8 (c # cs))
      else if take 4 (c # cs) = CHR 0x0A # fence then strip_fences (drop 4 (c # cs))
      else if take 3 (c # cs) = fence then strip_fences (drop 3 (c # cs))
      else c # strip_fences cs)"
  by pat_completeness auto
termination
  by (relation "measure length") auto

text \<open>The function that \<open>getJsonRepairFunction\<close> returns.\<close>

definition getJsonRepairFunction :: "host \<Rightarrow> string \<Rightarrow> error \<Rightarrow> string option" where
  "getJsonRepairFunction h text error =
     (case error of
        JSONParseError m t \<Rightarrow>
          (let cleanedText = strip_fences text
           in case JSON_parse h cleanedText of
                Inl jsonError \<Rightarrow> None
              | Inr v \<Rightarrow> Some cleanedText)
      | _ \<Rightarrow> None)"

definition generateObjectByModelType ::
  "host \<Rightarrow> IAgentRuntime \<Rightarrow> process_env \<Rightarrow> ObjectGenerationParams \<Rightarrow> ModelTypeName
     \<Rightarrow> (IAgentRuntime \<Rightarrow> process_env \<Rightarrow> string) \<Rightarrow> effect list \<times> (error + json)" where
  "generateObjectByModelType h runtime env params modelType getModelFn =
     (let openai = createOpenAIClient runtime env;
          modelName = getModelFn runtime env;
          temperature = default_to 0 (op_temperature params);
          args = \<lparr>go_client = openai, go_model = modelName, go_prompt = op_prompt params,
                  go_temperature = temperature\<rparr>
      in (case generateObject h args of
            Inr r \<Rightarrow>
              (GenerateObject args # map Fetch (generateObject_http h args)
               @ (case go_usage r of
                    None \<Rightarrow> []
                  | Some usage \<Rightarrow> [emitModelUsageEvent modelType (op_prompt params) usage]),
               Inr (go_object r))
          | Inl error \<Rightarrow>
              (GenerateObject args # map Fetch (generateObject_http h args),
               (case error of
                  JSONParseError m t \<Rightarrow>
                    (case getJsonRepairFunction h t error of
                       None \<Rightarrow> Inl error
                     | Some repairedJsonString \<Rightarrow>
                         if repairedJsonString \<noteq> []
                         then (case JSON_parse h repairedJsonString of
                                 Inl repairParseError \<Rightarrow> Inl repairParseError
                               | Inr repairedObject \<Rightarrow> Inr repairedObject)
                         else Inl error)
                | _ \<Rightarrow> Inl error))))"

definition models_OBJECT_SMALL ::
  "host \<Rightarrow> IAgentRuntime \<Rightarrow> process_env \<Rightarrow> ObjectGenerationParams \<Rightarrow> effect list \<times> (error + json)" where
  "models_OBJECT_SMALL h runtime env params =
     generateObjectByModelType h runtime env params OBJECT_SMALL getSmallModel"

definition models_OBJECT_LARGE ::
  "host \<Rightarrow> IAgentRuntime \<Rightarrow> process_env \<Rightarrow> ObjectGenerationParams \<Rightarrow> effect list \<times> (error + json)" where
  "models_OBJECT_LARGE h runtime env params =
     generateObjectByModelType h runtime env params OBJECT_LARGE getLargeModel"

section \<open>Image generation\<close>

record ImageParams =
  ip_prompt :: string
  ip_n :: "real option"
  ip_size :: "string option"

definition imageRequest :: "string \<Rightarrow> string option \<Rightarrow> string \<Rightarrow> real \<Rightarrow> string \<Rightarrow> request" where
  "imageRequest baseURL apiKey prompt n sz =
     \<lparr>url = baseURL @ ''/images/generations'', http_method = ''POST'',
      headers = [(''Authorization'', ''Bearer '' @ show_string apiKey),
                 (''Content-Type'', ''application/json'')],
      req_body = JsonBody [(''prompt'', JStr prompt), (''n'', JNum n), (''size'', JStr sz)]\<rparr>"

text \<open>Reading a property of \<open>null\<close> throws.\<close>

definition null_read :: "string \<Rightarrow> error" where
  "null_read k = TypeError (''Cannot read properties of null (reading '' @ [CHR 0x27] @ k @ [CHR 0x27] @ '')'')"

definition models_IMAGE ::
  "host \<Rightarrow> IAgentRuntime \<Rightarrow> process_env \<Rightarrow> ImageParams \<Rightarrow> effect list \<times> (error + jsval)" where
  "models_IMAGE h runtime env params =
     (let n = (case ip_n params of None \<Rightarrow> 1 | Some x \<Rightarrow> if x \<noteq> 0 then x else 1);
          size = (if truthy_str (ip_size params) then the (ip_size params) else ''1024x1024'');
          prompt = ip_prompt params;
          baseURL = getBaseURL runtime env;
          apiKey = getApiKey runtime env
      in if \<not> truthy_str apiKey then ([], Inl (Error ''ElizaOS API key not configured''))
         else
           let req = imageRequest baseURL apiKey prompt n size
           in ([Fetch req],
               (case fetch h req of
                  Inl error \<Rightarrow> Inl error
                | Inr response \<Rightarrow>
                    (case text_result response of
                       Inl error \<Rightarrow> Inl error
                     | Inr rawResponseBody \<Rightarrow>
                         if \<not> ok response
                         then Inl (Error (''Failed to generate image: '' @ statusText response))
                         else
                           (case json_result response of
                              Inl error \<Rightarrow> Inl error
                            | Inr data \<Rightarrow>
                                if data = JNull then Inl (null_read ''data'')
                                else Inr (get_prop data ''data''))))))"

section \<open>Transcription\<close>

definition transcriptionRequest :: "string \<Rightarrow> string option \<Rightarrow> nat list \<Rightarrow> request" where
  "transcriptionRequest baseURL apiKey audioBuffer =
     \<lparr>url = baseURL @ ''/audio/transcriptions'', http_method = ''POST'',
      headers = [(''Authorization'', ''Bearer '' @ show_string apiKey)],
      req_body = FormBody [(''file'', FormBlob audioBuffer ''recording.mp3''),
                           (''model'', FormString ''whisper-1'')]\<rparr>"

definition models_TRANSCRIPTION ::
  "host \<Rightarrow> IAgentRuntime \<Rightarrow> process_env \<Rightarrow> nat list option \<Rightarrow> effect list \<times> (error + jsval)" where
  "models_TRANSCRIPTION h runtime env audioBuffer =
     (let baseURL = getBaseURL runtime env;
          apiKey = getApiKey runtime env
      in if \<not> truthy_str apiKey
         then ([], Inl (Error ''ElizaOS API key not configured - Cannot make request''))
         else if audioBuffer = None \<or> audioBuffer = Some []
         then ([], Inl (Error ''Audio buffer is empty or invalid for transcription''))
         else
           let req = transcriptionRequest baseURL apiKey (the audioBuffer)
           in ([Fetch req],
               (case fetch h req of
                  Inl error \<Rightarrow> Inl error
                | Inr response \<Rightarrow>
                    (case text_result response of
                       Inl error \<Rightarrow> Inl error
                     | Inr rawResponseBody \<Rightarrow>
                         if \<not> ok response
                         then Inl (Error (''Failed to transcribe audio: '' @ statusText response))
                         else
                           (case json_result response of
                              Inl error \<Rightarrow> Inl error
                            | Inr data \<Rightarrow>
                                if data = JNull then Inl (null_read ''text'')
                                else Inr (get_prop data ''text''))))))"

section \<open>Image description\<close>

datatype ImageDescriptionParams = ParamsUrl string | ParamsImage string "string option"

datatype ImageDescriptionResult = RawContent json | TitleDescription string string

definition defaultPrompt :: string where
  "defaultPrompt = ''Please analyze this image and provide a title and detailed description.''"

subsection \<open>The title pattern\<close>

text \<open>
  \<open>/title[:\s]+(.+?)(?:\n|$)/i\<close>. At a position of the text: the word, in any case,
  then a run of colons and white space, then the group. The run is greedy and gives
  characters back one at a time; the group is lazy, cannot hold a line terminator, and
  must end at a line feed (which the match takes) or at the end of the text.
  \<open>group_from k r\<close> tries the runs of \<open>k\<close> characters and fewer, longest first, on
  the text \<open>r\<close> after the word; it returns the group and the text after the match.
\<close>

definition isTitleSep :: "char \<Rightarrow> bool" where
  "isTitleSep c = (c = CHR '':'' \<or> isWhiteSpace c)"

fun group_from :: "nat \<Rightarrow> string \<Rightarrow> (string \<times> string) option" where
  "group_from 0 r = None"
| "group_from (Suc k) r =
     (let u = drop (Suc k) r;
          g = takeWhile (\<lambda>c. \<not> isLineTerminator c) u;
          rest = dropWhile (\<lambda>c. \<not> isLineTerminator c) u
      in if g \<noteq> [] \<and> (rest = [] \<or> hd rest = CHR 0x0A)
         then Some (g, case rest of [] \<Rightarrow> [] | x # t \<Rightarrow> t)
         else group_from k r)"

definition title_match_at :: "string \<Rightarrow> (string \<times> string) option" where
  "title_match_at s =
     (if length s \<ge> 5 \<and> toLowerCase (take 5 s) = ''title''
      then group_from (length (takeWhile isTitleSep (drop 5 s))) (drop 5 s)
      else None)"

text \<open>The leftmost match: the text before it, the group, the text after it.\<close>

fun title_search :: "string \<Rightarrow> (string \<times> string \<times> string) option" where
  "title_search [] = None"
| "title_search (c # cs) =
     (case title_match_at (c # cs) of
        Some (g, rest) \<Rightarrow> Some ([], g, rest)
      | None \<Rightarrow>
          (case title_search cs of
             None \<Rightarrow> None
           | Some (before, g, rest) \<Rightarrow> Some (c # before, g, rest)))"

text \<open>\<open>titleMatch?.[1]?.trim() || 'Image Analysis'\<close> and \<open>content.replace(..., '').trim()\<close>\<close>

definition parse_title :: "string \<Rightarrow> string" where
  "parse_title content =
     (case title_search content of
        None \<Rightarrow> ''Image Analysis''
      | Some (before, g, rest) \<Rightarrow> if trim g \<noteq> [] then trim g else ''Image Analysis'')"

definition parse_description :: "string \<Rightarrow> string" where
  "parse_description content =
     (case title_search content of
        None \<Rightarrow> trim content
      | Some (before, g, rest) \<Rightarrow> trim (before @ rest))"

subsection \<open>The handler\<close>

definition imageDescriptionRequest ::
  "string \<Rightarrow> string option \<Rightarrow> string \<Rightarrow> int option \<Rightarrow> string \<Rightarrow> string \<Rightarrow> request" where
  "imageDescriptionRequest baseURL apiKey modelName maxTokens promptText imageUrl =
     \<lparr>url = baseURL @ ''/chat/completions'', http_method = ''POST'',
      headers = [(''Content-Type'', ''application/json''),
                 (''Authorization'', ''Bearer '' @ show_string apiKey)],
      req_body = JsonBody
        [(''model'', JStr modelName),
         (''messages'',
            JArr [JObj [(''role'', JStr ''user''),
                        (''content'',
                           JArr [JObj [(''type'', JStr ''text''), (''text'', JStr promptText)],
                                 JObj [(''type'', JStr ''image_url''),
                                       (''image_url'', JObj [(''url'', JStr imageUrl)])]])]]),
         (''max_tokens'', (case maxTokens of None \<Rightarrow> JNull | Some i \<Rightarrow> JNum (of_int i)))]\<rparr>"

text \<open>What the \<open>catch\<close> block returns for a thrown error.\<close>

definition analysis_failed :: "error \<Rightarrow> ImageDescriptionResult" where
  "analysis_failed e = TitleDescription ''Failed to analyze image'' (''Error: '' @ error_message e)"

definition isCustomPrompt :: "ImageDescriptionParams \<Rightarrow> bool" where
  "isCustomPrompt params =
     (case params of
        ParamsUrl u \<Rightarrow> False
      | ParamsImage u p \<Rightarrow> truthy_str p \<and> p \<noteq> Some defaultPrompt)"

definition models_IMAGE_DESCRIPTION ::
  "host \<Rightarrow> IAgentRuntime \<Rightarrow> process_env \<Rightarrow> ImageDescriptionParams
     \<Rightarrow> effect list \<times> (error + ImageDescriptionResult)" where
  "models_IMAGE_DESCRIPTION h runtime env params =
     (let modelName = getImageDescriptionModel runtime env;
          maxTokens = parseInt
            (let s = getSetting runtime env ''OPENAI_IMAGE_DESCRIPTION_MAX_TOKENS'' (Some ''8192'')
             in if truthy_str s then the s else ''8192'');
          imageUrl = (case params of ParamsUrl u \<Rightarrow> u | ParamsImage u p \<Rightarrow> u);
          promptText = (case params of
                          ParamsUrl u \<Rightarrow> defaultPrompt
                        | ParamsImage u p \<Rightarrow> if truthy_str p then the p else defaultPrompt);
          baseURL = getBaseURL runtime env;
          apiKey = getApiKey runtime env
      in if \<not> truthy_str apiKey
         then ([], Inr (TitleDescription ''Failed to analyze image'' ''API key not configured''))
         else
           let req = imageDescriptionRequest baseURL apiKey modelName maxTokens promptText imageUrl
           in (case fetch h req of
                 Inl error \<Rightarrow> ([Fetch req], Inr (analysis_failed error))
               | Inr response \<Rightarrow>
                   (case text_result response of
                      Inl error \<Rightarrow> ([Fetch req], Inr (analysis_failed error))
                    | Inr rawResponseBody \<Rightarrow>
                        if \<not> ok response
                        then ([Fetch req],
                              Inr (analysis_failed
                                     (Error (''ElizaOS API error: '' @ show_nat (status response)))))
                        else
                          (case json_result response of
                             Inl error \<Rightarrow> ([Fetch req], Inr (analysis_failed error))
                           | Inr result \<Rightarrow>
                               if result = JNull
                               then ([Fetch req], Inr (analysis_failed (null_read ''choices'')))
                               else
                                 let content =
                                       opt_prop (opt_prop (opt_index0 (get_prop result ''choices''))
                                                   ''message'') ''content'';
                                     usage = get_prop result ''usage'';
                                     emitted =
                                       (if truthy usage
                                        then [emitModelUsageEvent IMAGE_DESCRIPTION
                                                (case params of
                                                   ParamsUrl u \<Rightarrow> u
                                                 | ParamsImage u p \<Rightarrow> if truthy_str p then the p else [])
                                                \<lparr>promptTokens = get_prop (the usage) ''prompt_tokens'',
                                                 completionTokens = get_prop (the usage) ''completion_tokens'',
                                                 totalTokens = get_prop (the usage) ''total_tokens''\<rparr>]
                                        else [])
                                 in (Fetch req # emitted,
                                     Inr (if \<not> truthy content
                                          then TitleDescription ''Failed to analyze image''
                                                 ''No response from API''
                                          else if isCustomPrompt params
                                          then RawContent (the content)
                                          else
                                            (case the content of
                                               JStr c \<Rightarrow>
                                                 TitleDescription (parse_title c) (parse_description c)
                                             | v \<Rightarrow>
                                                 analysis_failed
                                                   (TypeError ''content.match is not a function''))))))))"

section \<open>Reading a trace\<close>


fun is_event :: "effect \<Rightarrow> bool" where
  "is_event (EmitEvent e) = True"
| "is_event x = False"


definition events :: "effect list \<Rightarrow> effect list" where
  "events tr = filter is_event tr"

fun http_requests :: "effect list \<Rightarrow> request list" where
  "http_requests [] = []"
| "http_requests (Fetch r # tr) = r # http_requests tr"
| "http_requests (GenerateText a # tr) = http_requests tr"
| "http_requests (GenerateObject a # tr) = http_requests tr"
| "http_requests (EmitEvent e # tr) = http_requests tr"

section \<open>Notions used in the statements\<close>

text \<open>
  For the embedding handler: the text it extracts from its parameter (\<open>None\<close> when it
  extracts none), the request it builds for a text, the value it reads from a response
  payload as \<open>data?.data?.[0]?.embedding\<close>, and the failure of the upstream call: the
  request raised, or the status is not a success, or the body could not be read or parsed,
  or the payload has no \<open>data[0].embedding\<close>.
\<close>

definition embedding_text :: "TextEmbeddingParams \<Rightarrow> string option" where
  "embedding_text params =
     (case params of
        ParamsNull \<Rightarrow> None
      | ParamsString s \<Rightarrow> Some s
      | ParamsObject t \<Rightarrow> if truthy_str t then t else None)"

definition embedding_request_of :: "IAgentRuntime \<Rightarrow> process_env \<Rightarrow> string \<Rightarrow> request" where
  "embedding_request_of runtime env text =
     embeddingRequest (getEmbeddingBaseURL runtime env) (getEmbeddingApiKey runtime env)
       (getSettingOr runtime env ''ELIZAOS_EMBEDDING_MODEL'' ''text-embedding-3-small'') text"

definition upstream_embedding :: "json \<Rightarrow> jsval" where
  "upstream_embedding data = opt_prop (opt_index0 (opt_prop (Some data) ''data'')) ''embedding''"

definition upstream_failed :: "(error + response) \<Rightarrow> bool" where
  "upstream_failed outcome =
     (case outcome of
        Inl e \<Rightarrow> True
      | Inr r \<Rightarrow>
          \<not> ok r \<or> isl (text_result r)
          \<or> (case json_result r of Inl e \<Rightarrow> True | Inr data \<Rightarrow> \<not> truthy (upstream_embedding data)))"

text \<open>
  For the image description handler: the request it builds, the value it reads from a
  payload as \<open>choices?.[0]?.message?.content\<close>, the events it emits for a payload, and
  the result it computes from the content.
\<close>

definition image_description_request_of ::
  "IAgentRuntime \<Rightarrow> process_env \<Rightarrow> ImageDescriptionParams \<Rightarrow> request" where
  "image_description_request_of runtime env params =
     imageDescriptionRequest (getBaseURL runtime env) (getApiKey runtime env)
       (getImageDescriptionModel runtime env)
       (parseInt
          (let s = getSetting runtime env ''OPENAI_IMAGE_DESCRIPTION_MAX_TOKENS'' (Some ''8192'')
           in if truthy_str s then the s else ''8192''))
       (case params of
          ParamsUrl u \<Rightarrow> defaultPrompt
        | ParamsImage u p \<Rightarrow> if truthy_str p then the p else defaultPrompt)
       (case params of ParamsUrl u \<Rightarrow> u | ParamsImage u p \<Rightarrow> u)"

definition upstream_content :: "json \<Rightarrow> jsval" where
  "upstream_content result =
     opt_prop (opt_prop (opt_index0 (get_prop result ''choices'')) ''message'') ''content''"

definition description_events :: "ImageDescriptionParams \<Rightarrow> json \<Rightarrow> effect list" where
  "description_events params result =
     (if truthy (get_prop result ''usage'')
      then [emitModelUsageEvent IMAGE_DESCRIPTION
              (case params of
                 ParamsUrl u \<Rightarrow> u
               | ParamsImage u p \<Rightarrow> if truthy_str p then the p else [])
              \<lparr>promptTokens = get_prop (the (get_prop result ''usage'')) ''prompt_tokens'',
               completionTokens = get_prop (the (get_prop result ''usage'')) ''completion_tokens'',
               totalTokens = get_prop (the (get_prop result ''usage'')) ''total_tokens''\<rparr>]
      else [])"

definition described :: "ImageDescriptionParams \<Rightarrow> jsval \<Rightarrow> ImageDescriptionResult" where
  "described params content =
     (if \<not> truthy content then TitleDescription ''Failed to analyze image'' ''No response from API''
      else if isCustomPrompt params then RawContent (the content)
      else (case the content of
              JStr c \<Rightarrow> TitleDescription (parse_title c) (parse_description c)
            | v \<Rightarrow> analysis_failed (TypeError ''content.match is not a function'')))"

text \<open>The first value of a chain of lookups that is present.\<close>

fun first_defined :: "'a option list \<Rightarrow> 'a option" where
  "first_defined [] = None"
| "first_defined (None # xs) = first_defined xs"
| "first_defined (Some v # xs) = Some v"

section \<open>A sample host\<close>

text \<open>
  An empty environment; a runtime that holds an API key, one with no settings at all and
  one whose settings name a small model; a host whose \<open>fetch\<close> answers every request with
  one given outcome, whose SDK is offline (it sends nothing and throws), and whose tokenizer
  throws the model name it is asked for; and a response with a given status and payload.
\<close>

definition demo_env :: process_env where
  "demo_env = Map.empty"

definition demo_runtime :: IAgentRuntime where
  "demo_runtime = \<lparr>settings = [''ELIZAOS_API_KEY'' \<mapsto> ''sk-demo''], character_system = None\<rparr>"

definition bare_runtime :: IAgentRuntime where
  "bare_runtime = \<lparr>settings = Map.empty, character_system = None\<rparr>"

definition demo_model_runtime :: IAgentRuntime where
  "demo_model_runtime =
     \<lparr>settings = [''ELIZAOS_SMALL_MODEL'' \<mapsto> ''gpt-4.1-mini''], character_system = None\<rparr>"

definition demo_host :: "(error + response) \<Rightarrow> host" where
  "demo_host outcome =
     \<lparr>VECTOR_DIMS = [384, 512, 768, 1024, 1536, 3072],
      fetch = (\<lambda>req. outcome),
      generateText = (\<lambda>args. Inl (Error ''offline'')),
      generateObject = (\<lambda>args. Inl (Error ''offline'')),
      generateText_http = (\<lambda>args. []),
      generateObject_http = (\<lambda>args. []),
      encodingForModel = (\<lambda>name. Inl (Error name)),
      JSON_parse = (\<lambda>s. Inl (Error ''Unexpected token''))\<rparr>"

definition demo_response :: "bool \<Rightarrow> nat \<Rightarrow> string \<Rightarrow> json \<Rightarrow> response" where
  "demo_response success code reason payload =
     \<lparr>ok = success, status = code, statusText = reason, text_result = Inr [],
      json_result = Inr payload, body = None\<rparr>"

text \<open>
  A host whose SDK meets a server error: it sends its request to \<open>/chat/completions\<close>,
  sends it twice more, and throws.
\<close>

definition chat_request :: "client_config \<Rightarrow> string \<Rightarrow> request" where
  "chat_request client modelName =
     \<lparr>url = cc_baseURL client @ ''/chat/completions'', http_method = ''POST'',
      headers = [(''Authorization'', ''Bearer '' @ show_string (cc_apiKey client)),
                 (''Content-Type'', ''application/json'')],
      req_body = JsonBody [(''model'', JStr modelName)]\<rparr>"


text \<open>
  A host whose SDK sends one request and returns a text with a usage object that holds no
  counts.
\<close>

definition answering_host :: host where
  "answering_host =
     \<lparr>VECTOR_DIMS = [384, 512, 768, 1024, 1536, 3072],
      fetch = (\<lambda>req. Inl (Error ''offline'')),
      generateText =
        (\<lambda>args. Inr \<lparr>gt_text = ''Hello from ElizaOS API!'',
                         gt_usage = Some \<lparr>promptTokens = None, completionTokens = None,
                                           totalTokens = None\<rparr>\<rparr>),
      generateObject = (\<lambda>args. Inl (Error ''offline'')),
      generateText_http = (\<lambda>args. [chat_request (gt_client args) (gt_model args)]),
      generateObject_http = (\<lambda>args. []),
      encodingForModel = (\<lambda>name. Inl (Error name)),
      JSON_parse = (\<lambda>s. Inl (Error ''Unexpected token''))\<rparr>"


definition demo_usage_payload :: json where
  "demo_usage_payload =
     JObj [(''data'', JArr [JObj [(''embedding'', JArr [JNum 1])]]),
           (''usage'', JObj [(''prompt_tokens'', JNum 2), (''total_tokens'', JNum 2)])]"

definition demo_image_payload :: json where
  "demo_image_payload =
     JObj [(''data'', JArr [JObj [(''url'', JStr ''https://example.org/1.png'')]]),
           (''usage'', JObj [(''input_tokens'', JNum 12), (''output_tokens'', JNum 1056),
                             (''total_tokens'', JNum 1068)])]"


text \<open>Parameters of an image, a text and an object generation call.\<close>

definition demo_image_params :: ImageParams where
  "demo_image_params = \<lparr>ip_prompt = ''A beautiful sunset over a calm ocean'', ip_n = None, ip_size = None\<rparr>"

definition demo_text_params :: GenerateTextParams where
  "demo_text_params =
     \<lparr>p_prompt = ''What is the nature of reality in 10 words?'', p_stopSequences = None,
      p_maxTokens = None, p_temperature = None, p_frequencyPenalty = None,
      p_presencePenalty = None\<rparr>"

definition demo_object_params :: ObjectGenerationParams where
  "demo_object_params = \<lparr>op_prompt = ''List three colours as JSON'', op_temperature = None\<rparr>"

section \<open>Basic facts\<close>

lemma sentinelVector_pos:
  "0 < d \<Longrightarrow> sentinelVector d x = JArr (JNum x # replicate (d - 1) (JNum 0))"
  by (cases d) (simp_all add: sentinelVector_def)

lemma TEXT_EMBEDDING_valid:
  assumes "embeddingDimensionSetting runtime env = Some (int d)" and "d \<in> set (VECTOR_DIMS h)"
  shows "models_TEXT_EMBEDDING h runtime env params =
           (case params of
              ParamsNull \<Rightarrow> ([], Inr (sentinelVector d (1 / 10)))
            | ParamsString s \<Rightarrow>
                embedText h runtime env
                  (getSettingOr runtime env ''ELIZAOS_EMBEDDING_MODEL'' ''text-embedding-3-small'') d s
            | ParamsObject t \<Rightarrow>
                if truthy_str t
                then embedText h runtime env
                       (getSettingOr runtime env ''ELIZAOS_EMBEDDING_MODEL'' ''text-embedding-3-small'') d (the t)
                else ([], Inr (sentinelVector d (2 / 10))))"
  using assms by (simp add: models_TEXT_EMBEDDING_def Let_def)

lemma TEXT_EMBEDDING_text:
  assumes "embeddingDimensionSetting runtime env = Some (int d)" and "d \<in> set (VECTOR_DIMS h)"
    and "embedding_text params = Some text"
  shows "models_TEXT_EMBEDDING h runtime env params =
           embedText h runtime env
             (getSettingOr runtime env ''ELIZAOS_EMBEDDING_MODEL'' ''text-embedding-3-small'') d text"
  using assms(3) unfolding TEXT_EMBEDDING_valid [OF assms(1,2)]
  by (cases params) (auto simp: embedding_text_def split: if_splits)

lemma embedText_network:
  assumes "trim text \<noteq> []" and "truthy_str (getEmbeddingApiKey runtime env)"
  shows "embedText h runtime env
           (getSettingOr runtime env ''ELIZAOS_EMBEDDING_MODEL'' ''text-embedding-3-small'') d text =
         (let req = embedding_request_of runtime env text
          in (case fetch h req of
                Inl error \<Rightarrow> ([Fetch req], Inr (sentinelVector d (6 / 10)))
              | Inr response \<Rightarrow>
                  (case text_result response of
                     Inl error \<Rightarrow> ([Fetch req], Inr (sentinelVector d (6 / 10)))
                   | Inr rawResponseBody \<Rightarrow>
                       if \<not> ok response then ([Fetch req], Inr (sentinelVector d (4 / 10)))
                       else
                         (case json_result response of
                            Inl error \<Rightarrow> ([Fetch req], Inr (sentinelVector d (6 / 10)))
                          | Inr data \<Rightarrow>
                              if \<not> truthy (upstream_embedding data)
                              then ([Fetch req], Inr (sentinelVector d (5 / 10)))
                              else
                                ([Fetch req]
                                 @ (if truthy (get_prop data ''usage'')
                                    then [emitModelUsageEvent TEXT_EMBEDDING text
                                            \<lparr>promptTokens = get_prop (the (get_prop data ''usage'')) ''prompt_tokens'',
                                             completionTokens = Some (JNum 0),
                                             totalTokens = get_prop (the (get_prop data ''usage'')) ''total_tokens''\<rparr>]
                                    else []),
                                 Inr (the (upstream_embedding data)))))))"
  using assms by (simp add: embedText_def embedding_request_of_def upstream_embedding_def Let_def split: sum.splits)

lemma demo_dimension: "embeddingDimensionSetting demo_runtime demo_env = Some (int 1536)"
  by (simp add: embeddingDimensionSetting_def getSetting_def demo_runtime_def demo_env_def
      parseInt_def isWhiteSpace_def isDigit_def digits_value_def digit_value_def)

lemma demo_dims: "1536 \<in> set (VECTOR_DIMS (demo_host outcome))"
  by (simp add: demo_host_def)

lemma demo_key: "truthy_str (getEmbeddingApiKey demo_runtime demo_env)"
  by (simp add: getEmbeddingApiKey_def getApiKey_def getSetting_def demo_runtime_def demo_env_def)

lemma trim_hello: "trim ''hello'' \<noteq> []"
  by (simp add: trim_def isWhiteSpace_def)

section \<open>Sentinel vectors of the embedding handler\<close>

text \<open>
  C9. With a valid configured dimension \<open>d\<close>, the embedding handler called with
  \<open>null\<close> returns, whatever the credentials and with no effect at all, the vector of
  length \<open>d\<close> that starts with 0.1 and is 0 elsewhere. Each degenerate path returns such a
  vector with its own first element: 0.2 for a parameter with no usable text, 0.3 for blank
  text, 0.4 for a non-success status, 0.5 for a payload without \<open>data[0].embedding\<close>, 0.6
  for an exception of the request, of reading the body or of parsing it.
\<close>

theorem TEXT_EMBEDDING_sentinel_paths:
  assumes dim: "embeddingDimensionSetting runtime env = Some (int d)"
    and mem: "d \<in> set (VECTOR_DIMS h)"
    and pos: "0 < d"
  shows "models_TEXT_EMBEDDING h runtime env ParamsNull =
           ([], Inr (JArr (JNum (1 / 10) # replicate (d - 1) (JNum 0))))
       \<and> (\<not> truthy_str t \<longrightarrow>
            models_TEXT_EMBEDDING h runtime env (ParamsObject t) =
              ([], Inr (JArr (JNum (2 / 10) # replicate (d - 1) (JNum 0)))))
       \<and> (embedding_text params = Some text \<and> trim text = [] \<longrightarrow>
            models_TEXT_EMBEDDING h runtime env params =
              ([], Inr (JArr (JNum (3 / 10) # replicate (d - 1) (JNum 0)))))
       \<and> (embedding_text params = Some text \<and> trim text \<noteq> []
            \<and> truthy_str (getEmbeddingApiKey runtime env)
            \<and> fetch h (embedding_request_of runtime env text) = Inr r
            \<and> text_result r = Inr b \<and> \<not> ok r \<longrightarrow>
            snd (models_TEXT_EMBEDDING h runtime env params) =
              Inr (JArr (JNum (4 / 10) # replicate (d - 1) (JNum 0))))
       \<and> (embedding_text params = Some text \<and> trim text \<noteq> []
            \<and> truthy_str (getEmbeddingApiKey runtime env)
            \<and> fetch h (embedding_request_of runtime env text) = Inr r
            \<and> text_result r = Inr b \<and> ok r \<and> json_result r = Inr data
            \<and> \<not> truthy (upstream_embedding data) \<longrightarrow>
            snd (models_TEXT_EMBEDDING h runtime env params) =
              Inr (JArr (JNum (5 / 10) # replicate (d - 1) (JNum 0))))
       \<and> (embedding_text params = Some text \<and> trim text \<noteq> []
            \<and> truthy_str (getEmbeddingApiKey runtime env)
            \<and> (fetch h (embedding_request_of runtime env text) = Inl e
                \<or> (fetch h (embedding_request_of runtime env text) = Inr r
                    \<and> (text_result r = Inl e \<or> (text_result r = Inr b \<and> ok r \<and> json_result r = Inl e)))) \<longrightarrow>
            snd (models_TEXT_EMBEDDING h runtime env params) =
              Inr (JArr (JNum (6 / 10) # replicate (d - 1) (JNum 0))))"
proof (intro conjI impI)
  show "models_TEXT_EMBEDDING h runtime env ParamsNull =
           ([], Inr (JArr (JNum (1 / 10) # replicate (d - 1) (JNum 0))))"
    by (simp add: TEXT_EMBEDDING_valid [OF dim mem] sentinelVector_pos [OF pos])
next
  assume "\<not> truthy_str t"
  then show "models_TEXT_EMBEDDING h runtime env (ParamsObject t) =
              ([], Inr (JArr (JNum (2 / 10) # replicate (d - 1) (JNum 0))))"
    by (simp add: TEXT_EMBEDDING_valid [OF dim mem] sentinelVector_pos [OF pos])
next
  assume "embedding_text params = Some text \<and> trim text = []"
  then show "models_TEXT_EMBEDDING h runtime env params =
              ([], Inr (JArr (JNum (3 / 10) # replicate (d - 1) (JNum 0))))"
    by (simp add: TEXT_EMBEDDING_text [OF dim mem] embedText_def sentinelVector_pos [OF pos])
next
  assume "embedding_text params = Some text \<and> trim text \<noteq> []
            \<and> truthy_str (getEmbeddingApiKey runtime env)
            \<and> fetch h (embedding_request_of runtime env text) = Inr r
            \<and> text_result r = Inr b \<and> \<not> ok r"
  then show "snd (models_TEXT_EMBEDDING h runtime env params) =
              Inr (JArr (JNum (4 / 10) # replicate (d - 1) (JNum 0)))"
    by (simp add: TEXT_EMBEDDING_text [OF dim mem] embedText_network sentinelVector_pos [OF pos])
next
  assume "embedding_text params = Some text \<and> trim text \<noteq> []
            \<and> truthy_str (getEmbeddingApiKey runtime env)
            \<and> fetch h (embedding_request_of runtime env text) = Inr r
            \<and> text_result r = Inr b \<and> ok r \<and> json_result r = Inr data
            \<and> \<not> truthy (upstream_embedding data)"
  then show "snd (models_TEXT_EMBEDDING h runtime env params) =
              Inr (JArr (JNum (5 / 10) # replicate (d - 1) (JNum 0)))"
    by (simp add: TEXT_EMBEDDING_text [OF dim mem] embedText_network sentinelVector_pos [OF pos])
next
  assume "embedding_text params = Some text \<and> trim text \<noteq> []
            \<and> truthy_str (getEmbeddingApiKey runtime env)
            \<and> (fetch h (embedding_request_of runtime env text) = Inl e
                \<or> (fetch h (embedding_request_of runtime env text) = Inr r
                    \<and> (text_result r = Inl e \<or> (text_result r = Inr b \<and> ok r \<and> json_result r = Inl e))))"
  then show "snd (models_TEXT_EMBEDDING h runtime env params) =
              Inr (JArr (JNum (6 / 10) # replicate (d - 1) (JNum 0)))"
    by (auto simp: TEXT_EMBEDDING_text [OF dim mem] embedText_network sentinelVector_pos [OF pos])
qed


theorem TEXT_EMBEDDING_sentinel_paths_witness:
  "models_TEXT_EMBEDDING (demo_host (Inr (demo_response False 500 ''Internal Server Error'' JNull)))
     demo_runtime demo_env ParamsNull =
     ([], Inr (JArr (JNum (1 / 10) # replicate 1535 (JNum 0))))
   \<and> snd (models_TEXT_EMBEDDING (demo_host (Inr (demo_response False 500 ''Internal Server Error'' JNull)))
          demo_runtime demo_env (ParamsString ''hello'')) =
     Inr (JArr (JNum (4 / 10) # replicate 1535 (JNum 0)))"
proof -
  let ?r = "demo_response False 500 ''Internal Server Error'' JNull"
  have pos: "0 < (1536::nat)" by simp
  have t: "embedding_text (ParamsString ''hello'') = Some ''hello''"
    by (simp add: embedding_text_def)
  have f: "fetch (demo_host (Inr ?r)) (embedding_request_of demo_runtime demo_env ''hello'') = Inr ?r"
    by (simp add: demo_host_def)
  have b: "text_result ?r = Inr []" "\<not> ok ?r"
    by (simp_all add: demo_response_def)
  from TEXT_EMBEDDING_sentinel_paths [OF demo_dimension demo_dims pos,
      of "Inr ?r" None "ParamsString ''hello''" "''hello''" ?r "[]"]
    t trim_hello demo_key f b
  show ?thesis by simp
qed

section \<open>The embedding handler does not throw\<close>

lemma fetch_demo_host: "fetch (demo_host outcome) req = outcome"
  by (simp add: demo_host_def)

lemma validDimension_nat:
  assumes "validDimension h x"
  shows "x = Some (int (nat (the x))) \<and> nat (the x) \<in> set (VECTOR_DIMS h)"
  using assms by (cases x) simp_all

lemma embedText_returns:
  assumes "truthy_str (getEmbeddingApiKey runtime env)"
  shows "\<exists>v. snd (embedText h runtime env
                 (getSettingOr runtime env ''ELIZAOS_EMBEDDING_MODEL'' ''text-embedding-3-small'') d text) = Inr v"
proof (cases "trim text = []")
  case True
  then show ?thesis by (simp add: embedText_def)
next
  case False
  then show ?thesis
    by (simp add: embedText_network [OF False assms] Let_def split: sum.splits)
qed

lemma embedText_failed:
  assumes "trim text \<noteq> []" and "truthy_str (getEmbeddingApiKey runtime env)"
    and "upstream_failed (fetch h (embedding_request_of runtime env text))"
  shows "snd (embedText h runtime env
            (getSettingOr runtime env ''ELIZAOS_EMBEDDING_MODEL'' ''text-embedding-3-small'') d text)
         \<in> {Inr (sentinelVector d (4 / 10)), Inr (sentinelVector d (5 / 10)), Inr (sentinelVector d (6 / 10))}"
  using assms(3)
  by (auto simp: embedText_network [OF assms(1,2)] upstream_failed_def Let_def split: sum.splits)


text \<open>
  C5. With a valid configured dimension and an API key for embeddings, the embedding
  handler returns a value for every parameter and every behaviour of the upstream: it never
  throws. When the request raises, the status is not a success, the body cannot be read or
  parsed, or the payload has no \<open>data[0].embedding\<close>, the value is a sentinel vector of
  the configured dimension, marked 0.4, 0.5 or 0.6.
\<close>

theorem TEXT_EMBEDDING_never_throws:
  assumes valid: "validDimension h (embeddingDimensionSetting runtime env)"
    and key: "truthy_str (getEmbeddingApiKey runtime env)"
  shows "(\<exists>v. snd (models_TEXT_EMBEDDING h runtime env params) = Inr v)
       \<and> (\<forall>text. embedding_text params = Some text \<and> trim text \<noteq> []
             \<and> upstream_failed (fetch h (embedding_request_of runtime env text))
           \<longrightarrow> snd (models_TEXT_EMBEDDING h runtime env params)
                 \<in> {Inr (sentinelVector (nat (the (embeddingDimensionSetting runtime env))) (4 / 10)),
                     Inr (sentinelVector (nat (the (embeddingDimensionSetting runtime env))) (5 / 10)),
                     Inr (sentinelVector (nat (the (embeddingDimensionSetting runtime env))) (6 / 10))})"
proof -
  let ?d = "nat (the (embeddingDimensionSetting runtime env))"
  from validDimension_nat [OF valid]
  have dim: "embeddingDimensionSetting runtime env = Some (int ?d)"
    and mem: "?d \<in> set (VECTOR_DIMS h)"
    by simp_all
  have "\<exists>v. snd (models_TEXT_EMBEDDING h runtime env params) = Inr v"
  proof (cases params)
    case ParamsNull
    then show ?thesis by (simp add: TEXT_EMBEDDING_valid [OF dim mem])
  next
    case (ParamsString s)
    then show ?thesis
      using embedText_returns [OF key] by (simp add: TEXT_EMBEDDING_valid [OF dim mem])
  next
    case (ParamsObject t)
    then show ?thesis
      using embedText_returns [OF key] by (simp add: TEXT_EMBEDDING_valid [OF dim mem])
  qed
  moreover have "snd (models_TEXT_EMBEDDING h runtime env params)
                 \<in> {Inr (sentinelVector ?d (4 / 10)), Inr (sentinelVector ?d (5 / 10)),
                     Inr (sentinelVector ?d (6 / 10))}"
    if "embedding_text params = Some s" and "trim s \<noteq> []"
      and "upstream_failed (fetch h (embedding_request_of runtime env s))" for s
    using embedText_failed [OF that(2) key that(3), of ?d]
    by (simp add: TEXT_EMBEDDING_text [OF dim mem that(1)])
  ultimately show ?thesis by blast
qed

theorem TEXT_EMBEDDING_never_throws_witness:
  "snd (models_TEXT_EMBEDDING (demo_host (Inl (Error ''connect ECONNREFUSED''))) demo_runtime demo_env
          (ParamsString ''hello'')) = Inr (sentinelVector 1536 (6 / 10))"
proof -
  let ?h = "demo_host (Inl (Error ''connect ECONNREFUSED''))"
  have valid: "validDimension ?h (embeddingDimensionSetting demo_runtime demo_env)"
    using demo_dims by (simp add: demo_dimension)
  have t: "embedding_text (ParamsString ''hello'') = Some ''hello''"
    by (simp add: embedding_text_def)
  have f: "upstream_failed (fetch ?h (embedding_request_of demo_runtime demo_env ''hello''))"
    by (simp add: fetch_demo_host upstream_failed_def)
  have known: "models_TEXT_EMBEDDING ?h demo_runtime demo_env (ParamsString ''hello'')
          = ([Fetch (embedding_request_of demo_runtime demo_env ''hello'')], Inr (sentinelVector 1536 (6 / 10)))"
    by (simp add: TEXT_EMBEDDING_valid [OF demo_dimension demo_dims]
        embedText_network [OF trim_hello demo_key] fetch_demo_host)
  from TEXT_EMBEDDING_never_throws [OF valid demo_key, of "ParamsString ''hello''"] t trim_hello f
  have "snd (models_TEXT_EMBEDDING ?h demo_runtime demo_env (ParamsString ''hello''))
      \<in> {Inr (sentinelVector 1536 (4 / 10)), Inr (sentinelVector 1536 (5 / 10)),
          Inr (sentinelVector 1536 (6 / 10))}"
    by (simp add: demo_dimension)
  then show ?thesis by (simp add: known)
qed

section \<open>Length of the returned embedding\<close>




section \<open>Missing credentials\<close>

lemma getApiKey_None:
  "settings runtime ''ELIZAOS_API_KEY'' = None \<Longrightarrow> env ''ELIZAOS_API_KEY'' = None
   \<Longrightarrow> getApiKey runtime env = None"
  by (simp add: getApiKey_def getSetting_def)

lemma getEmbeddingApiKey_None:
  "settings runtime ''ELIZAOS_API_KEY'' = None \<Longrightarrow> env ''ELIZAOS_API_KEY'' = None
   \<Longrightarrow> settings runtime ''ELIZAOS_EMBEDDING_API_KEY'' = None \<Longrightarrow> env ''ELIZAOS_EMBEDDING_API_KEY'' = None
   \<Longrightarrow> getEmbeddingApiKey runtime env = None"
  by (simp add: getEmbeddingApiKey_def getApiKey_def getSetting_def)

lemma embedText_no_key:
  "\<not> truthy_str (getEmbeddingApiKey runtime env) \<Longrightarrow>
   embedText h runtime env m d s =
     (if trim s = [] then ([], Inr (sentinelVector d (3 / 10)))
      else ([], Inl (Error ''ElizaOS API key not configured'')))"
  by (simp add: embedText_def Let_def)

lemma TEXT_EMBEDDING_no_key_trace:
  assumes "\<not> truthy_str (getEmbeddingApiKey runtime env)"
  shows "fst (models_TEXT_EMBEDDING h runtime env params) = []"
  by (cases params) (simp_all add: models_TEXT_EMBEDDING_def Let_def embedText_no_key [OF assms])

text \<open>
  C1, as stated, fails: with no API key in the runtime settings or the environment, the
  image description handler does not throw. Its guard returns a result object.
\<close>

theorem missing_key_counterexample:
  "settings bare_runtime ''ELIZAOS_API_KEY'' = None \<and> demo_env ''ELIZAOS_API_KEY'' = None
   \<and> models_IMAGE_DESCRIPTION (demo_host (Inl (Error ''offline''))) bare_runtime demo_env
        (ParamsUrl ''https://example.org/cat.png'') =
      ([], Inr (TitleDescription ''Failed to analyze image'' ''API key not configured''))"
  by (simp add: bare_runtime_def demo_env_def models_IMAGE_DESCRIPTION_def getApiKey_def
      getSetting_def Let_def)

text \<open>
  The speech path has no guard: with no API key it sends its request, with the header
  \<open>Bearer undefined\<close>.
\<close>

lemma fetchTextToSpeech_without_key:
  "fst (fetchTextToSpeech h bare_runtime demo_env ''Hello'') =
     [Fetch \<lparr>url = ''http://localhost:3001/api/v1/audio/speech'', http_method = ''POST'',
             headers = [(''Authorization'', ''Bearer undefined''),
                        (''Content-Type'', ''application/json'')],
             req_body = JsonBody [(''model'', JStr ''gpt-4o-mini-tts''), (''voice'', JStr ''nova''),
                                  (''input'', JStr ''Hello'')]\<rparr>]"
  by (simp add: fetchTextToSpeech_def bare_runtime_def demo_env_def getApiKey_def getBaseURL_def
      getSettingOr_def getSetting_def Let_def)

text \<open>
  C1, amended. When neither the runtime settings nor the environment supply
  \<open>ELIZAOS_API_KEY\<close>, the image and transcription handlers throw the missing-credential
  error and the image description handler returns its failure object, each without any
  request or other effect. When \<open>ELIZAOS_EMBEDDING_API_KEY\<close> is missing as well, the
  embedding handler issues no request for any parameter, and for a non-blank text under a
  valid dimension it throws the missing-credential error.
\<close>

theorem missing_key_no_request:
  assumes rt: "settings runtime ''ELIZAOS_API_KEY'' = None"
    and ev: "env ''ELIZAOS_API_KEY'' = None"
  shows "models_IMAGE h runtime env ip = ([], Inl (Error ''ElizaOS API key not configured''))
       \<and> models_TRANSCRIPTION h runtime env audioBuffer =
           ([], Inl (Error ''ElizaOS API key not configured - Cannot make request''))
       \<and> models_IMAGE_DESCRIPTION h runtime env idp =
           ([], Inr (TitleDescription ''Failed to analyze image'' ''API key not configured''))
       \<and> (settings runtime ''ELIZAOS_EMBEDDING_API_KEY'' = None
            \<and> env ''ELIZAOS_EMBEDDING_API_KEY'' = None \<longrightarrow>
            fst (models_TEXT_EMBEDDING h runtime env params) = []
            \<and> (validDimension h (embeddingDimensionSetting runtime env)
                 \<and> embedding_text params = Some s \<and> trim s \<noteq> [] \<longrightarrow>
                 snd (models_TEXT_EMBEDDING h runtime env params) =
                   Inl (Error ''ElizaOS API key not configured'')))"
proof (intro conjI impI)
  note key = getApiKey_None [where runtime = runtime and env = env, OF rt ev]
  show "models_IMAGE h runtime env ip = ([], Inl (Error ''ElizaOS API key not configured''))"
    by (simp add: models_IMAGE_def key Let_def)
  show "models_TRANSCRIPTION h runtime env audioBuffer =
           ([], Inl (Error ''ElizaOS API key not configured - Cannot make request''))"
    by (simp add: models_TRANSCRIPTION_def key Let_def)
  show "models_IMAGE_DESCRIPTION h runtime env idp =
           ([], Inr (TitleDescription ''Failed to analyze image'' ''API key not configured''))"
    by (simp add: models_IMAGE_DESCRIPTION_def key Let_def)
next
  assume "settings runtime ''ELIZAOS_EMBEDDING_API_KEY'' = None
            \<and> env ''ELIZAOS_EMBEDDING_API_KEY'' = None"
  then have "getEmbeddingApiKey runtime env = None"
    using getEmbeddingApiKey_None [where runtime = runtime and env = env, OF rt ev] by simp
  then show "fst (models_TEXT_EMBEDDING h runtime env params) = []"
    by (simp add: TEXT_EMBEDDING_no_key_trace)
next
  assume a: "settings runtime ''ELIZAOS_EMBEDDING_API_KEY'' = None
            \<and> env ''ELIZAOS_EMBEDDING_API_KEY'' = None"
    and b: "validDimension h (embeddingDimensionSetting runtime env)
                 \<and> embedding_text params = Some s \<and> trim s \<noteq> []"
  from a have k: "\<not> truthy_str (getEmbeddingApiKey runtime env)"
    using getEmbeddingApiKey_None [where runtime = runtime and env = env, OF rt ev] by simp
  from b validDimension_nat [of h "embeddingDimensionSetting runtime env"]
  have dim: "embeddingDimensionSetting runtime env
               = Some (int (nat (the (embeddingDimensionSetting runtime env))))"
    and mem: "nat (the (embeddingDimensionSetting runtime env)) \<in> set (VECTOR_DIMS h)"
    by simp_all
  from b show "snd (models_TEXT_EMBEDDING h runtime env params) =
                   Inl (Error ''ElizaOS API key not configured'')"
    by (simp add: TEXT_EMBEDDING_text [OF dim mem] embedText_no_key [OF k])
qed

theorem missing_key_no_request_witness:
  "models_IMAGE (demo_host (Inl (Error ''offline''))) bare_runtime demo_env demo_image_params =
     ([], Inl (Error ''ElizaOS API key not configured''))
   \<and> models_TEXT_EMBEDDING (demo_host (Inl (Error ''offline''))) bare_runtime demo_env
       (ParamsString ''hello'') = ([], Inl (Error ''ElizaOS API key not configured''))"
proof -
  let ?h = "demo_host (Inl (Error ''offline''))"
  have rt: "settings bare_runtime ''ELIZAOS_API_KEY'' = None"
    and ev: "demo_env ''ELIZAOS_API_KEY'' = None"
    and rt': "settings bare_runtime ''ELIZAOS_EMBEDDING_API_KEY'' = None"
    and ev': "demo_env ''ELIZAOS_EMBEDDING_API_KEY'' = None"
    by (simp_all add: bare_runtime_def demo_env_def)
  have dim: "embeddingDimensionSetting bare_runtime demo_env = Some 1536"
    by (simp add: embeddingDimensionSetting_def getSetting_def bare_runtime_def demo_env_def
        parseInt_def isWhiteSpace_def isDigit_def digits_value_def digit_value_def)
  have valid: "validDimension ?h (embeddingDimensionSetting bare_runtime demo_env)"
    using demo_dims by (simp add: dim)
  have t: "embedding_text (ParamsString ''hello'') = Some ''hello''"
    by (simp add: embedding_text_def)
  from missing_key_no_request [where runtime = bare_runtime and env = demo_env and h = ?h
      and ip = demo_image_params and params = "ParamsString ''hello''" and s = "''hello''", OF rt ev]
    rt' ev' valid t trim_hello
  show ?thesis by (simp add: prod_eq_iff)
qed

section \<open>Upstream error statuses\<close>

lemma IMAGE_DESCRIPTION_unfold:
  "models_IMAGE_DESCRIPTION h runtime env params =
     (if \<not> truthy_str (getApiKey runtime env)
      then ([], Inr (TitleDescription ''Failed to analyze image'' ''API key not configured''))
      else
        let req = image_description_request_of runtime env params
        in (case fetch h req of
            Inl error \<Rightarrow> ([Fetch req], Inr (analysis_failed error))
          | Inr response \<Rightarrow>
              (case text_result response of
                 Inl error \<Rightarrow> ([Fetch req], Inr (analysis_failed error))
               | Inr rawResponseBody \<Rightarrow>
                   if \<not> ok response
                   then ([Fetch req],
                         Inr (analysis_failed (Error (''ElizaOS API error: '' @ show_nat (status response)))))
                   else
                     (case json_result response of
                        Inl error \<Rightarrow> ([Fetch req], Inr (analysis_failed error))
                      | Inr result \<Rightarrow>
                          if result = JNull
                          then ([Fetch req], Inr (analysis_failed (null_read ''choices'')))
                          else (Fetch req # description_events params result,
                                Inr (described params (upstream_content result)))))))"
  unfolding models_IMAGE_DESCRIPTION_def image_description_request_of_def upstream_content_def
    description_events_def described_def Let_def
  by (rule refl)





lemma TEXT_TO_SPEECH_eq:
  "models_TEXT_TO_SPEECH h runtime env s = fetchTextToSpeech h runtime env s"
  by (cases "fetchTextToSpeech h runtime env s")
    (simp add: models_TEXT_TO_SPEECH_def split: sum.splits)


lemma IMAGE_DESCRIPTION_requests:
  assumes "Fetch req \<in> set (fst (models_IMAGE_DESCRIPTION h runtime env idp))"
  shows "truthy_str (getApiKey runtime env) \<and> req = image_description_request_of runtime env idp"
  using assms
  by (auto simp: IMAGE_DESCRIPTION_unfold Let_def description_events_def emitModelUsageEvent_def
      split: if_splits sum.splits)






section \<open>One outbound call per invocation\<close>


lemma events_simps:
  "events [] = []"
  "events (Fetch r # tr) = events tr"
  "events (GenerateText a # tr) = events tr"
  "events (GenerateObject b # tr) = events tr"
  "events (EmitEvent e # tr) = EmitEvent e # events tr"
  by (simp_all add: events_def)


lemma events_map_Fetch: "events (map Fetch rs @ tr) = events tr"
  by (induction rs) (simp_all add: events_simps)

lemma http_requests_map_Fetch: "http_requests (map Fetch rs @ tr) = rs @ http_requests tr"
  by (induction rs) simp_all
















section \<open>Emitted usage events\<close>

lemma events_description_events: "events (description_events params result) = description_events params result"
  by (simp add: description_events_def events_simps emitModelUsageEvent_def)

lemma IMAGE_events: "events (fst (models_IMAGE h runtime env ip)) = []"
  by (simp add: models_IMAGE_def Let_def events_simps)

lemma TRANSCRIPTION_events: "events (fst (models_TRANSCRIPTION h runtime env audioBuffer)) = []"
  by (simp add: models_TRANSCRIPTION_def Let_def events_simps)

lemma TEXT_TO_SPEECH_events: "events (fst (models_TEXT_TO_SPEECH h runtime env s)) = []"
  by (simp add: TEXT_TO_SPEECH_eq fetchTextToSpeech_def Let_def events_simps)

lemma TEXT_SMALL_events:
  assumes "GenerateText args \<in> set (fst (models_TEXT_SMALL h runtime env p))"
  shows "events (fst (models_TEXT_SMALL h runtime env p)) =
     (case generateText h args of
        Inl e \<Rightarrow> []
      | Inr r \<Rightarrow>
          (case gt_usage r of
             None \<Rightarrow> []
           | Some u \<Rightarrow>
               [EmitEvent \<lparr>ev_provider = ''elizaos'', ev_type = TEXT_SMALL, ev_prompt = p_prompt p,
                           ev_tokens_prompt = promptTokens u,
                           ev_tokens_completion = completionTokens u,
                           ev_tokens_total = totalTokens u\<rparr>]))"
  using assms
  by (auto simp: models_TEXT_SMALL_def Let_def events_simps emitModelUsageEvent_def events_map_Fetch
      events_map_Fetch [where tr = "[]", simplified] split: sum.splits option.splits)

lemma TEXT_LARGE_events:
  assumes "GenerateText args \<in> set (fst (models_TEXT_LARGE h runtime env p))"
  shows "events (fst (models_TEXT_LARGE h runtime env p)) =
     (case generateText h args of
        Inl e \<Rightarrow> []
      | Inr r \<Rightarrow>
          (case gt_usage r of
             None \<Rightarrow> []
           | Some u \<Rightarrow>
               [EmitEvent \<lparr>ev_provider = ''elizaos'', ev_type = TEXT_LARGE, ev_prompt = p_prompt p,
                           ev_tokens_prompt = promptTokens u,
                           ev_tokens_completion = completionTokens u,
                           ev_tokens_total = totalTokens u\<rparr>]))"
  using assms
  by (auto simp: models_TEXT_LARGE_def Let_def events_simps emitModelUsageEvent_def events_map_Fetch
      events_map_Fetch [where tr = "[]", simplified] split: sum.splits option.splits)

lemma generateObjectByModelType_events:
  assumes "GenerateObject args \<in> set (fst (generateObjectByModelType h runtime env q modelType getModelFn))"
  shows "events (fst (generateObjectByModelType h runtime env q modelType getModelFn)) =
     (case generateObject h args of
        Inl e \<Rightarrow> []
      | Inr r \<Rightarrow>
          (case go_usage r of
             None \<Rightarrow> []
           | Some u \<Rightarrow>
               [EmitEvent \<lparr>ev_provider = ''elizaos'', ev_type = modelType, ev_prompt = op_prompt q,
                           ev_tokens_prompt = promptTokens u,
                           ev_tokens_completion = completionTokens u,
                           ev_tokens_total = totalTokens u\<rparr>]))"
  using assms
  by (auto simp: generateObjectByModelType_def Let_def events_simps emitModelUsageEvent_def events_map_Fetch
      events_map_Fetch [where tr = "[]", simplified] split: sum.splits option.splits)

lemma IMAGE_DESCRIPTION_events:
  assumes "Fetch req \<in> set (fst (models_IMAGE_DESCRIPTION h runtime env idp))"
    and "fetch h req = Inr r" and "text_result r = Inr b" and "ok r"
    and "json_result r = Inr result" and "result \<noteq> JNull"
  shows "events (fst (models_IMAGE_DESCRIPTION h runtime env idp)) = description_events idp result"
  using assms(2-) IMAGE_DESCRIPTION_requests [OF assms(1)]
  by (simp add: IMAGE_DESCRIPTION_unfold Let_def events_simps events_description_events)

lemma IMAGE_DESCRIPTION_events_le: "length (events (fst (models_IMAGE_DESCRIPTION h runtime env idp))) \<le> 1"
  by (simp add: IMAGE_DESCRIPTION_unfold Let_def events_simps events_description_events
      description_events_def emitModelUsageEvent_def split: sum.splits)

lemma TEXT_EMBEDDING_events:
  assumes "validDimension h (embeddingDimensionSetting runtime env)"
    and "embedding_text ep = Some s" and "trim s \<noteq> []"
    and "truthy_str (getEmbeddingApiKey runtime env)"
    and "fetch h (embedding_request_of runtime env s) = Inr r"
    and "text_result r = Inr b" and "ok r" and "json_result r = Inr data"
    and "truthy (upstream_embedding data)"
  shows "events (fst (models_TEXT_EMBEDDING h runtime env ep)) =
     (if truthy (get_prop data ''usage'')
      then [EmitEvent \<lparr>ev_provider = ''elizaos'', ev_type = TEXT_EMBEDDING, ev_prompt = s,
                        ev_tokens_prompt = get_prop (the (get_prop data ''usage'')) ''prompt_tokens'',
                        ev_tokens_completion = Some (JNum 0),
                        ev_tokens_total = get_prop (the (get_prop data ''usage'')) ''total_tokens''\<rparr>]
      else [])"
proof -
  let ?d = "nat (the (embeddingDimensionSetting runtime env))"
  from validDimension_nat [OF assms(1)]
  have dim: "embeddingDimensionSetting runtime env = Some (int ?d)"
    and mem: "?d \<in> set (VECTOR_DIMS h)"
    by simp_all
  show ?thesis
    using assms(5-)
    by (simp add: TEXT_EMBEDDING_text [OF dim mem assms(2)] embedText_network [OF assms(3,4)]
        events_simps emitModelUsageEvent_def)
qed

lemma embedText_events_le:
  "length (events (fst (embedText h runtime env m d s))) \<le> 1"
  by (simp add: embedText_def Let_def events_simps emitModelUsageEvent_def split: sum.splits)

lemma TEXT_EMBEDDING_events_le: "length (events (fst (models_TEXT_EMBEDDING h runtime env ep))) \<le> 1"
  by (cases ep)
    (simp_all add: models_TEXT_EMBEDDING_def Let_def events_simps embedText_events_le [simplified])

text \<open>
  C8, as stated, fails: the image handler receives a payload with usage data and emits
  no event.
\<close>

theorem usage_events_counterexample:
  "truthy (get_prop demo_image_payload ''usage'')
   \<and> snd (models_IMAGE (demo_host (Inr (demo_response True 200 ''OK'' demo_image_payload)))
            demo_runtime demo_env demo_image_params) =
       Inr (Some (JArr [JObj [(''url'', JStr ''https://example.org/1.png'')]]))
   \<and> events (fst (models_IMAGE (demo_host (Inr (demo_response True 200 ''OK'' demo_image_payload)))
                    demo_runtime demo_env demo_image_params)) = []"
  by (simp add: models_IMAGE_def Let_def fetch_demo_host demo_response_def demo_image_payload_def
      demo_runtime_def demo_env_def getApiKey_def getSetting_def events_simps)

text \<open>
  C8, amended. The image, transcription and speech handlers never emit a usage event. The
  embedding handler (on its success path) and the image description handler (on a success
  status with a payload other than \<open>null\<close>) emit exactly one \<open>MODEL_USED\<close> event with
  provider \<open>elizaos\<close> and the token counts of the payload when the payload has usage data,
  and none when it has not. The text and object handlers read no response: they emit exactly
  one such event when the result of their SDK call holds a usage object, with the counts of
  that object, and none when it holds none or the call throws, whatever the HTTP response
  held. No invocation emits more than one event.
\<close>

theorem usage_events:
  "events (fst (models_IMAGE h runtime env ip)) = []
   \<and> events (fst (models_TRANSCRIPTION h runtime env audioBuffer)) = []
   \<and> events (fst (models_TEXT_TO_SPEECH h runtime env s)) = []
   \<and> length (events (fst (models_TEXT_EMBEDDING h runtime env ep))) \<le> 1
   \<and> length (events (fst (models_IMAGE_DESCRIPTION h runtime env idp))) \<le> 1
   \<and> (validDimension h (embeddingDimensionSetting runtime env)
        \<and> embedding_text ep = Some t \<and> trim t \<noteq> []
        \<and> truthy_str (getEmbeddingApiKey runtime env)
        \<and> fetch h (embedding_request_of runtime env t) = Inr r
        \<and> text_result r = Inr b \<and> ok r \<and> json_result r = Inr data
        \<and> truthy (upstream_embedding data) \<longrightarrow>
        events (fst (models_TEXT_EMBEDDING h runtime env ep)) =
          (if truthy (get_prop data ''usage'')
           then [EmitEvent \<lparr>ev_provider = ''elizaos'', ev_type = TEXT_EMBEDDING, ev_prompt = t,
                   ev_tokens_prompt = get_prop (the (get_prop data ''usage'')) ''prompt_tokens'',
                   ev_tokens_completion = Some (JNum 0),
                   ev_tokens_total = get_prop (the (get_prop data ''usage'')) ''total_tokens''\<rparr>]
           else []))
   \<and> (Fetch req \<in> set (fst (models_IMAGE_DESCRIPTION h runtime env idp))
        \<and> fetch h req = Inr r \<and> text_result r = Inr b \<and> ok r \<and> json_result r = Inr data
        \<and> data \<noteq> JNull \<longrightarrow>
        events (fst (models_IMAGE_DESCRIPTION h runtime env idp)) =
          (if truthy (get_prop data ''usage'')
           then [EmitEvent \<lparr>ev_provider = ''elizaos'', ev_type = IMAGE_DESCRIPTION,
                   ev_prompt = (case idp of
                                  ParamsUrl u \<Rightarrow> u
                                | ParamsImage u pr \<Rightarrow> if truthy_str pr then the pr else []),
                   ev_tokens_prompt = get_prop (the (get_prop data ''usage'')) ''prompt_tokens'',
                   ev_tokens_completion = get_prop (the (get_prop data ''usage'')) ''completion_tokens'',
                   ev_tokens_total = get_prop (the (get_prop data ''usage'')) ''total_tokens''\<rparr>]
           else []))
   \<and> (GenerateText args \<in> set (fst (models_TEXT_SMALL h runtime env p)) \<longrightarrow>
        events (fst (models_TEXT_SMALL h runtime env p)) =
          (case generateText h args of
             Inl e \<Rightarrow> []
           | Inr res \<Rightarrow>
               (case gt_usage res of
                  None \<Rightarrow> []
                | Some u \<Rightarrow>
                    [EmitEvent \<lparr>ev_provider = ''elizaos'', ev_type = TEXT_SMALL, ev_prompt = p_prompt p,
                       ev_tokens_prompt = promptTokens u, ev_tokens_completion = completionTokens u,
                       ev_tokens_total = totalTokens u\<rparr>])))
   \<and> (GenerateText args \<in> set (fst (models_TEXT_LARGE h runtime env p)) \<longrightarrow>
        events (fst (models_TEXT_LARGE h runtime env p)) =
          (case generateText h args of
             Inl e \<Rightarrow> []
           | Inr res \<Rightarrow>
               (case gt_usage res of
                  None \<Rightarrow> []
                | Some u \<Rightarrow>
                    [EmitEvent \<lparr>ev_provider = ''elizaos'', ev_type = TEXT_LARGE, ev_prompt = p_prompt p,
                       ev_tokens_prompt = promptTokens u, ev_tokens_completion = completionTokens u,
                       ev_tokens_total = totalTokens u\<rparr>])))
   \<and> (GenerateObject oargs \<in> set (fst (models_OBJECT_SMALL h runtime env q)) \<longrightarrow>
        events (fst (models_OBJECT_SMALL h runtime env q)) =
          (case generateObject h oargs of
             Inl e \<Rightarrow> []
           | Inr res \<Rightarrow>
               (case go_usage res of
                  None \<Rightarrow> []
                | Some u \<Rightarrow>
                    [EmitEvent \<lparr>ev_provider = ''elizaos'', ev_type = OBJECT_SMALL, ev_prompt = op_prompt q,
                       ev_tokens_prompt = promptTokens u, ev_tokens_completion = completionTokens u,
                       ev_tokens_total = totalTokens u\<rparr>])))
   \<and> (GenerateObject oargs \<in> set (fst (models_OBJECT_LARGE h runtime env q)) \<longrightarrow>
        events (fst (models_OBJECT_LARGE h runtime env q)) =
          (case generateObject h oargs of
             Inl e \<Rightarrow> []
           | Inr res \<Rightarrow>
               (case go_usage res of
                  None \<Rightarrow> []
                | Some u \<Rightarrow>
                    [EmitEvent \<lparr>ev_provider = ''elizaos'', ev_type = OBJECT_LARGE, ev_prompt = op_prompt q,
                       ev_tokens_prompt = promptTokens u, ev_tokens_completion = completionTokens u,
                       ev_tokens_total = totalTokens u\<rparr>])))"
proof (intro conjI impI)
  show "events (fst (models_IMAGE h runtime env ip)) = []" by (rule IMAGE_events)
  show "events (fst (models_TRANSCRIPTION h runtime env audioBuffer)) = []"
    by (rule TRANSCRIPTION_events)
  show "events (fst (models_TEXT_TO_SPEECH h runtime env s)) = []" by (rule TEXT_TO_SPEECH_events)
  show "length (events (fst (models_TEXT_EMBEDDING h runtime env ep))) \<le> 1"
    by (rule TEXT_EMBEDDING_events_le)
  show "length (events (fst (models_IMAGE_DESCRIPTION h runtime env idp))) \<le> 1"
    by (rule IMAGE_DESCRIPTION_events_le)
next
  assume "validDimension h (embeddingDimensionSetting runtime env)
        \<and> embedding_text ep = Some t \<and> trim t \<noteq> []
        \<and> truthy_str (getEmbeddingApiKey runtime env)
        \<and> fetch h (embedding_request_of runtime env t) = Inr r
        \<and> text_result r = Inr b \<and> ok r \<and> json_result r = Inr data
        \<and> truthy (upstream_embedding data)"
  then show "events (fst (models_TEXT_EMBEDDING h runtime env ep)) =
          (if truthy (get_prop data ''usage'')
           then [EmitEvent \<lparr>ev_provider = ''elizaos'', ev_type = TEXT_EMBEDDING, ev_prompt = t,
                   ev_tokens_prompt = get_prop (the (get_prop data ''usage'')) ''prompt_tokens'',
                   ev_tokens_completion = Some (JNum 0),
                   ev_tokens_total = get_prop (the (get_prop data ''usage'')) ''total_tokens''\<rparr>]
           else [])"
    using TEXT_EMBEDDING_events [of h runtime env ep t r b data] by blast
next
  assume "Fetch req \<in> set (fst (models_IMAGE_DESCRIPTION h runtime env idp))
        \<and> fetch h req = Inr r \<and> text_result r = Inr b \<and> ok r \<and> json_result r = Inr data
        \<and> data \<noteq> JNull"
  then have "events (fst (models_IMAGE_DESCRIPTION h runtime env idp)) = description_events idp data"
    using IMAGE_DESCRIPTION_events [of req h runtime env idp r b data] by blast
  then show "events (fst (models_IMAGE_DESCRIPTION h runtime env idp)) =
          (if truthy (get_prop data ''usage'')
           then [EmitEvent \<lparr>ev_provider = ''elizaos'', ev_type = IMAGE_DESCRIPTION,
                   ev_prompt = (case idp of
                                  ParamsUrl u \<Rightarrow> u
                                | ParamsImage u pr \<Rightarrow> if truthy_str pr then the pr else []),
                   ev_tokens_prompt = get_prop (the (get_prop data ''usage'')) ''prompt_tokens'',
                   ev_tokens_completion = get_prop (the (get_prop data ''usage'')) ''completion_tokens'',
                   ev_tokens_total = get_prop (the (get_prop data ''usage'')) ''total_tokens''\<rparr>]
           else [])"
    by (simp add: description_events_def emitModelUsageEvent_def)
next
  assume "GenerateText args \<in> set (fst (models_TEXT_SMALL h runtime env p))"
  then show "events (fst (models_TEXT_SMALL h runtime env p)) =
          (case generateText h args of
             Inl e \<Rightarrow> []
           | Inr res \<Rightarrow>
               (case gt_usage res of
                  None \<Rightarrow> []
                | Some u \<Rightarrow>
                    [EmitEvent \<lparr>ev_provider = ''elizaos'', ev_type = TEXT_SMALL, ev_prompt = p_prompt p,
                       ev_tokens_prompt = promptTokens u, ev_tokens_completion = completionTokens u,
                       ev_tokens_total = totalTokens u\<rparr>]))"
    by (rule TEXT_SMALL_events)
next
  assume "GenerateText args \<in> set (fst (models_TEXT_LARGE h runtime env p))"
  then show "events (fst (models_TEXT_LARGE h runtime env p)) =
          (case generateText h args of
             Inl e \<Rightarrow> []
           | Inr res \<Rightarrow>
               (case gt_usage res of
                  None \<Rightarrow> []
                | Some u \<Rightarrow>
                    [EmitEvent \<lparr>ev_provider = ''elizaos'', ev_type = TEXT_LARGE, ev_prompt = p_prompt p,
                       ev_tokens_prompt = promptTokens u, ev_tokens_completion = completionTokens u,
                       ev_tokens_total = totalTokens u\<rparr>]))"
    by (rule TEXT_LARGE_events)
next
  assume "GenerateObject oargs \<in> set (fst (models_OBJECT_SMALL h runtime env q))"
  then show "events (fst (models_OBJECT_SMALL h runtime env q)) =
          (case generateObject h oargs of
             Inl e \<Rightarrow> []
           | Inr res \<Rightarrow>
               (case go_usage res of
                  None \<Rightarrow> []
                | Some u \<Rightarrow>
                    [EmitEvent \<lparr>ev_provider = ''elizaos'', ev_type = OBJECT_SMALL, ev_prompt = op_prompt q,
                       ev_tokens_prompt = promptTokens u, ev_tokens_completion = completionTokens u,
                       ev_tokens_total = totalTokens u\<rparr>]))"
    unfolding models_OBJECT_SMALL_def by (rule generateObjectByModelType_events)
next
  assume "GenerateObject oargs \<in> set (fst (models_OBJECT_LARGE h runtime env q))"
  then show "events (fst (models_OBJECT_LARGE h runtime env q)) =
          (case generateObject h oargs of
             Inl e \<Rightarrow> []
           | Inr res \<Rightarrow>
               (case go_usage res of
                  None \<Rightarrow> []
                | Some u \<Rightarrow>
                    [EmitEvent \<lparr>ev_provider = ''elizaos'', ev_type = OBJECT_LARGE, ev_prompt = op_prompt q,
                       ev_tokens_prompt = promptTokens u, ev_tokens_completion = completionTokens u,
                       ev_tokens_total = totalTokens u\<rparr>]))"
    unfolding models_OBJECT_LARGE_def by (rule generateObjectByModelType_events)
qed


theorem usage_events_witness:
  "events (fst (models_TEXT_EMBEDDING (demo_host (Inr (demo_response True 200 ''OK'' demo_usage_payload)))
                  demo_runtime demo_env (ParamsString ''hello''))) =
     [EmitEvent \<lparr>ev_provider = ''elizaos'', ev_type = TEXT_EMBEDDING, ev_prompt = ''hello'',
                 ev_tokens_prompt = Some (JNum 2), ev_tokens_completion = Some (JNum 0),
                 ev_tokens_total = Some (JNum 2)\<rparr>]"
proof -
  let ?r = "demo_response True 200 ''OK'' demo_usage_payload"
  let ?h = "demo_host (Inr ?r)"
  have valid: "validDimension ?h (embeddingDimensionSetting demo_runtime demo_env)"
    using demo_dims by (simp add: demo_dimension)
  have t: "embedding_text (ParamsString ''hello'') = Some ''hello''"
    by (simp add: embedding_text_def)
  have f: "fetch ?h (embedding_request_of demo_runtime demo_env ''hello'') = Inr ?r"
    by (simp add: fetch_demo_host)
  have r: "text_result ?r = Inr []" "ok ?r" "json_result ?r = Inr demo_usage_payload"
    by (simp_all add: demo_response_def)
  have e: "truthy (upstream_embedding demo_usage_payload)"
    by (simp add: upstream_embedding_def demo_usage_payload_def)
  have u: "get_prop demo_usage_payload ''usage''
             = Some (JObj [(''prompt_tokens'', JNum 2), (''total_tokens'', JNum 2)])"
    by (simp add: demo_usage_payload_def)
  from usage_events [of ?h demo_runtime demo_env demo_image_params None "[]" "ParamsString ''hello''"
      "ParamsUrl []" "''hello''" ?r "[]" demo_usage_payload]
    valid t trim_hello demo_key f r e
  show ?thesis by (simp add: u)
qed

section \<open>Precedence of settings\<close>

text \<open>
  C2. A setting resolves to the runtime setting when present, otherwise to the environment
  variable, otherwise to the default, also for the model name of the tokenizer handlers.
  The tokenizer handlers break this: with a small model named in the runtime settings and an
  empty environment, \<open>getSmallModel\<close> gives the runtime's model, and the tokenizer asks
  the library for the default \<open>gpt-4o\<close>, since it reads the environment only.
\<close>

theorem tokenizer_ignores_runtime_setting:
  "settings demo_model_runtime ''ELIZAOS_SMALL_MODEL'' = Some ''gpt-4.1-mini''
   \<and> getSmallModel demo_model_runtime demo_env = ''gpt-4.1-mini''
   \<and> tokenizerModelName demo_env TEXT_SMALL = ''gpt-4o''
   \<and> models_TEXT_TOKENIZER_ENCODE (demo_host (Inl (Error ''offline''))) demo_model_runtime demo_env
        ''Hello tokenizer encode!'' (Some TEXT_SMALL) = Inl (Error ''gpt-4o'')"
  by (simp add: demo_model_runtime_def demo_env_def getSmallModel_def getSetting_def
      tokenizerModelName_def models_TEXT_TOKENIZER_ENCODE_def tokenizeText_def demo_host_def)

text \<open>
  What the code does. Every lookup through \<open>getSetting\<close> takes the runtime setting when present,
  otherwise the environment variable of the same name, otherwise the default. The small,
  large and image description model names are the first present value of their chains of
  such lookups, with the hardcoded default last. The tokenizer handlers do not read the
  runtime: their model name is the first present of the two environment variables of the model
  family, or the default.
\<close>

theorem setting_precedence:
  "(settings runtime key = Some v \<longrightarrow> getSetting runtime env key d = Some v)
   \<and> (settings runtime key = None \<and> env key = Some v \<longrightarrow> getSetting runtime env key d = Some v)
   \<and> (settings runtime key = None \<and> env key = None \<longrightarrow> getSetting runtime env key d = d)
   \<and> getSmallModel runtime env =
       default_to ''gpt-4o''
         (first_defined [settings runtime ''ELIZAOS_SMALL_MODEL'', env ''ELIZAOS_SMALL_MODEL'',
                         settings runtime ''SMALL_MODEL'', env ''SMALL_MODEL''])
   \<and> getLargeModel runtime env =
       default_to ''gpt-5-mini''
         (first_defined [settings runtime ''ELIZAOS_LARGE_MODEL'', env ''ELIZAOS_LARGE_MODEL'',
                         settings runtime ''LARGE_MODEL'', env ''LARGE_MODEL''])
   \<and> getImageDescriptionModel runtime env =
       default_to ''gpt-4o''
         (first_defined [settings runtime ''ELIZAOS_IMAGE_DESCRIPTION_MODEL'',
                         env ''ELIZAOS_IMAGE_DESCRIPTION_MODEL''])
   \<and> tokenizerModelName env TEXT_SMALL =
       default_to ''gpt-4o'' (first_defined [env ''ELIZAOS_SMALL_MODEL'', env ''SMALL_MODEL''])
   \<and> (m \<noteq> TEXT_SMALL \<longrightarrow>
        tokenizerModelName env m =
          default_to ''gpt-5-mini'' (first_defined [env ''ELIZAOS_LARGE_MODEL'', env ''LARGE_MODEL'']))
   \<and> models_TEXT_TOKENIZER_ENCODE h runtime env prompt modelType =
       tokenizeText h env (default_to TEXT_LARGE modelType) prompt
   \<and> models_TEXT_TOKENIZER_DECODE h runtime env tokens modelType =
       detokenizeText h env (default_to TEXT_LARGE modelType) tokens"
proof (intro conjI impI)
  show "getSmallModel runtime env =
       default_to ''gpt-4o''
         (first_defined [settings runtime ''ELIZAOS_SMALL_MODEL'', env ''ELIZAOS_SMALL_MODEL'',
                         settings runtime ''SMALL_MODEL'', env ''SMALL_MODEL''])"
    by (simp add: getSmallModel_def getSettingOr_def getSetting_def split: option.splits)
  show "getLargeModel runtime env =
       default_to ''gpt-5-mini''
         (first_defined [settings runtime ''ELIZAOS_LARGE_MODEL'', env ''ELIZAOS_LARGE_MODEL'',
                         settings runtime ''LARGE_MODEL'', env ''LARGE_MODEL''])"
    by (simp add: getLargeModel_def getSettingOr_def getSetting_def split: option.splits)
  show "getImageDescriptionModel runtime env =
       default_to ''gpt-4o''
         (first_defined [settings runtime ''ELIZAOS_IMAGE_DESCRIPTION_MODEL'',
                         env ''ELIZAOS_IMAGE_DESCRIPTION_MODEL''])"
    by (simp add: getImageDescriptionModel_def getSetting_def split: option.splits)
  show "tokenizerModelName env TEXT_SMALL =
       default_to ''gpt-4o'' (first_defined [env ''ELIZAOS_SMALL_MODEL'', env ''SMALL_MODEL''])"
    by (simp add: tokenizerModelName_def split: option.splits)
  show "tokenizerModelName env m =
          default_to ''gpt-5-mini'' (first_defined [env ''ELIZAOS_LARGE_MODEL'', env ''LARGE_MODEL''])"
    if "m \<noteq> TEXT_SMALL"
    using that by (simp add: tokenizerModelName_def split: option.splits)
  show "models_TEXT_TOKENIZER_ENCODE h runtime env prompt modelType =
       tokenizeText h env (default_to TEXT_LARGE modelType) prompt"
    by (cases modelType) (simp_all add: models_TEXT_TOKENIZER_ENCODE_def)
  show "models_TEXT_TOKENIZER_DECODE h runtime env tokens modelType =
       detokenizeText h env (default_to TEXT_LARGE modelType) tokens"
    by (cases modelType) (simp_all add: models_TEXT_TOKENIZER_DECODE_def)
qed (simp_all add: getSetting_def)

theorem setting_precedence_witness:
  "getSetting demo_model_runtime demo_env ''ELIZAOS_SMALL_MODEL'' None = Some ''gpt-4.1-mini''
   \<and> getSetting demo_model_runtime demo_env ''SMALL_MODEL'' (Some ''gpt-4o'') = Some ''gpt-4o''
   \<and> getSmallModel demo_model_runtime demo_env = ''gpt-4.1-mini''
   \<and> tokenizerModelName demo_env TEXT_LARGE = ''gpt-5-mini''"
proof -
  have a: "settings demo_model_runtime ''ELIZAOS_SMALL_MODEL'' = Some ''gpt-4.1-mini''"
    and b: "settings demo_model_runtime ''SMALL_MODEL'' = None"
    and c: "demo_env ''SMALL_MODEL'' = None" "demo_env ''ELIZAOS_SMALL_MODEL'' = None"
      "demo_env ''LARGE_MODEL'' = None" "demo_env ''ELIZAOS_LARGE_MODEL'' = None"
    by (simp_all add: demo_model_runtime_def demo_env_def)
  from setting_precedence [of demo_model_runtime "''ELIZAOS_SMALL_MODEL''" "''gpt-4.1-mini''" demo_env None
      TEXT_LARGE]
    setting_precedence [of demo_model_runtime "''SMALL_MODEL''" "[]" demo_env "Some ''gpt-4o''" TEXT_LARGE]
    a b c
  show ?thesis by simp
qed

section \<open>Tokenizing and detokenizing\<close>

text \<open>
  Both functions resolve the same model name and so the same encoding: where the library's
  encoding decodes what it encoded, detokenizing gives the text back. Whether it does is a
  property of the library.
\<close>

lemma detokenizeText_tokenizeText:
  assumes "encodingForModel h (tokenizerModelName env model) = Inr encoding"
    and "encode encoding prompt = Inr tokens"
    and "decode encoding tokens = Inr prompt"
  shows "tokenizeText h env model prompt = Inr tokens
       \<and> detokenizeText h env model tokens = Inr prompt"
  using assms by (simp add: tokenizeText_def detokenizeText_def)

section \<open>Result of the image description handler\<close>











section \<open>The SDK paths on the sample host\<close>

text \<open>
  The sample host's SDK throws: the text and object handlers call it once and surface its
  error, and emit nothing. Where the SDK returns a text with a usage object that holds no
  counts, the small text handler returns the text and emits one event, with no counts.
\<close>

lemma TEXT_SMALL_offline:
  "snd (models_TEXT_SMALL (demo_host outcome) demo_runtime demo_env demo_text_params) =
     Inl (Error ''offline'')
   \<and> events (fst (models_TEXT_SMALL (demo_host outcome) demo_runtime demo_env demo_text_params)) = []"
  by (simp add: models_TEXT_SMALL_def Let_def demo_host_def events_simps)

lemma OBJECT_SMALL_offline:
  "snd (models_OBJECT_SMALL (demo_host outcome) demo_runtime demo_env demo_object_params) =
     Inl (Error ''offline'')
   \<and> events (fst (models_OBJECT_SMALL (demo_host outcome) demo_runtime demo_env demo_object_params)) = []"
  by (simp add: models_OBJECT_SMALL_def generateObjectByModelType_def Let_def demo_host_def
      events_simps)

lemma TEXT_SMALL_answered:
  "snd (models_TEXT_SMALL answering_host demo_runtime demo_env demo_text_params) =
     Inr ''Hello from ElizaOS API!''
   \<and> events (fst (models_TEXT_SMALL answering_host demo_runtime demo_env demo_text_params)) =
       [EmitEvent \<lparr>ev_provider = ''elizaos'', ev_type = TEXT_SMALL,
                   ev_prompt = ''What is the nature of reality in 10 words?'',
                   ev_tokens_prompt = None, ev_tokens_completion = None,
                   ev_tokens_total = None\<rparr>]"
  by (simp add: models_TEXT_SMALL_def Let_def answering_host_def events_simps
      emitModelUsageEvent_def demo_text_params_def)

end
